theory Spec2Isabelle
  imports Complex_Main "HOL-Library.Sublist" "HOL-Library.Code_Target_Numeral"
begin

section \<open>Strings\<close>

text \<open>
  JavaScript strings are modelled as \<^typ>\<open>string\<close>. A multi-line template literal of the
  source is written as the list of its source lines; \<open>text_lines\<close> puts the line breaks
  back, so that \<open>text_lines ls\<close> is the value of the literal character by character (the
  first element is the empty rest of the line that holds the opening backquote, the last
  one the indentation in front of the closing backquote). Two adjacent quote characters
  cannot be written inside a HOL string literal; they appear as \<open>[CHR 0x27, CHR 0x27]\<close>.
\<close>

definition newline :: string where
  "newline = [CHR 0x0A]"

text \<open>\<open>Array.prototype.join\<close> on an array of strings.\<close>

fun join :: "string \<Rightarrow> string list \<Rightarrow> string" where
  "join sep [] = []"
| "join sep [x] = x"
| "join sep (x # y # ys) = x @ sep @ join sep (y # ys)"

definition text_lines :: "string list \<Rightarrow> string" where
  "text_lines ls = join newline ls"

section \<open>The configuration\<close>

text \<open>
  \<open>StealthConfig\<close>: every field of the interface is optional, so a boolean field is a
  \<^typ>\<open>bool option\<close> (\<open>None\<close> is \<open>undefined\<close>). The basic variant of the module declares
  the first eighteen fields; the enhanced variant (stealth.ts) declares the same eighteen
  and four more.
\<close>

record StealthConfig_basic =
  webdriver :: "bool option"
  navigator :: "bool option"
  navigatorLanguages :: "bool option"
  navigatorPlatform :: "bool option"
  navigatorHardwareConcurrency :: "bool option"
  navigatorDeviceMemory :: "bool option"
  screenWidth :: "bool option"
  screenHeight :: "bool option"
  pixelRatio :: "bool option"
  colorDepth :: "bool option"
  touchSupport :: "bool option"
  chromeRuntime :: "bool option"
  permissions :: "bool option"
  windowFrame :: "bool option"
  doNotTrack :: "bool option"
  plugins :: "bool option"
  mediaDevices :: "bool option"
  customUserAgent :: "string option"

record StealthConfig = StealthConfig_basic +
  canvasNoise :: "bool option"
  webglNoise :: "bool option"
  audioContextNoise :: "bool option"
  behaviorRandomization :: "bool option"

definition defaultStealthConfig_basic :: StealthConfig_basic where
  "defaultStealthConfig_basic =
    \<lparr> webdriver = Some True,
      navigator = Some True,
      navigatorLanguages = Some True,
      navigatorPlatform = Some True,
      navigatorHardwareConcurrency = Some True,
      navigatorDeviceMemory = Some True,
      screenWidth = Some True,
      screenHeight = Some True,
      pixelRatio = Some True,
      colorDepth = Some True,
      touchSupport = Some True,
      chromeRuntime = Some True,
      permissions = Some True,
      windowFrame = Some True,
      doNotTrack = Some False,
      plugins = Some True,
      mediaDevices = Some True,
      customUserAgent = None \<rparr>"

definition defaultStealthConfig :: StealthConfig where
  "defaultStealthConfig =
    \<lparr> webdriver = Some True,
      navigator = Some True,
      navigatorLanguages = Some True,
      navigatorPlatform = Some True,
      navigatorHardwareConcurrency = Some True,
      navigatorDeviceMemory = Some True,
      screenWidth = Some True,
      screenHeight = Some True,
      pixelRatio = Some True,
      colorDepth = Some True,
      touchSupport = Some True,
      chromeRuntime = Some True,
      permissions = Some True,
      windowFrame = Some True,
      doNotTrack = Some False,
      plugins = Some True,
      mediaDevices = Some True,
      customUserAgent = None,
      canvasNoise = Some True,
      webglNoise = Some True,
      audioContextNoise = Some True,
      behaviorRandomization = Some True \<rparr>"

section \<open>Doubles\<close>

text \<open>
  A JavaScript number is an IEEE 754 double. The numbers these functions compute with are
  finite and not negative; such a double is \<open>significand * 2 ^ exponent\<close> with a
  significand of at most 53 bits and an exponent from -1074 to 971. Several pairs stand for
  the same number (1 * 2 ^ -1 and 2 * 2 ^ -2); the operations below give the same number
  for each of them.
\<close>

datatype double = Double (significand: nat) (exponent: int)

instantiation double :: zero
begin

definition zero_double :: double where
  "0 = Double 0 0"

instance ..

end

definition is_double :: "double \<Rightarrow> bool" where
  "is_double x \<longleftrightarrow> significand x < 2 ^ 53 \<and> - 1074 \<le> exponent x \<and> exponent x \<le> 971"

definition double_value :: "double \<Rightarrow> real" where
  "double_value x =
     (if 0 \<le> exponent x then real (significand x) * 2 ^ nat (exponent x)
      else real (significand x) / 2 ^ nat (- exponent x))"

text \<open>
  The product of a double and an array length (a small integer, itself a double): the
  exact product \<open>significand * n * 2 ^ exponent\<close>, rounded as IEEE 754 multiplication
  rounds it, to the nearest number with a significand of 53 bits, and to the one with the
  even significand when two are equally near. \<open>excess_bits m\<close> is the number of low bits
  that \<open>m\<close> has beyond 53, \<open>round_half_even m s\<close> is \<open>m / 2 ^ s\<close> rounded that way.
  (A product beyond the largest double is infinite in JavaScript and a large number
  here; both are beyond every array index.)
\<close>

fun excess_bits :: "nat \<Rightarrow> nat" where
  "excess_bits m = (if m < 2 ^ 53 then 0 else Suc (excess_bits (m div 2)))"

definition round_half_even :: "nat \<Rightarrow> nat \<Rightarrow> nat" where
  "round_half_even m s =
     (let q = m div 2 ^ s; r = m mod 2 ^ s
      in if 2 ^ s < 2 * r \<or> (2 * r = 2 ^ s \<and> odd q) then q + 1 else q)"

definition double_times_nat :: "double \<Rightarrow> nat \<Rightarrow> double" where
  "double_times_nat x n =
     (let m = significand x * n; s = excess_bits m
      in Double (round_half_even m s) (exponent x + int s))"

text \<open>\<open>Math.floor\<close> of such a double, as an integer.\<close>

definition Math_floor :: "double \<Rightarrow> int" where
  "Math_floor x =
     (if 0 \<le> exponent x then int (significand x * 2 ^ nat (exponent x))
      else int (significand x div 2 ^ nat (- exponent x)))"

section \<open>The randomization source\<close>

text \<open>
  \<open>Math.random\<close> is ambient state: the sequence of the values its future calls return.
  A call takes the first one. By its contract a value is a double from 0 (included) to 1
  (excluded). Every function of the module takes the source and returns it as the call
  leaves it.
\<close>

type_synonym random_source = "nat \<Rightarrow> double"

definition Math_random :: "random_source \<Rightarrow> double \<times> random_source" where
  "Math_random rs = (rs 0, \<lambda>n. rs (Suc n))"

section \<open>The override recipes pushed by generateStealthScript\<close>

text \<open>
  One list of source lines for each \<open>scripts.push(...)\<close> of the source, in source order,
  and the template literal it stands for. The first twenty-six are pushed by both variants
  of the generator (the two source files agree on them character by character); the last
  eight exist in the enhanced variant only. No literal has an interpolation.
\<close>

definition lines_webdriver :: "string list" where
  \<open>lines_webdriver =
    ['''',
     ''      Object.defineProperty(navigator, 'webdriver', {'',
     ''        get: () => undefined,'',
     ''        configurable: true,'',
     ''        enumerable: true,'',
     ''      });'',
     ''    '']\<close>

definition script_webdriver :: string where
  "script_webdriver = text_lines lines_webdriver"

definition lines_languages_first :: "string list" where
  \<open>lines_languages_first =
    ['''',
     ''      Object.defineProperty(navigator, 'languages', {'',
     ''        get: () => ['en-US', 'en', 'ja', 'zh-CN'],'',
     ''        configurable: true,'',
     ''        enumerable: true,'',
     ''      });'',
     ''    '']\<close>

definition script_languages_first :: string where
  "script_languages_first = text_lines lines_languages_first"

definition lines_language :: "string list" where
  \<open>lines_language =
    ['''',
     ''      Object.defineProperty(navigator, 'language', {'',
     ''        get: () => 'en-US','',
     ''        configurable: true,'',
     ''        enumerable: true,'',
     ''      });'',
     ''    '']\<close>

definition script_language :: string where
  "script_language = text_lines lines_language"

definition lines_languages_second :: "string list" where
  \<open>lines_languages_second =
    ['''',
     ''      Object.defineProperty(navigator, 'languages', {'',
     ''        get: () => ['en-US', 'en'],'',
     ''        configurable: true,'',
     ''        enumerable: true,'',
     ''      });'',
     ''    '']\<close>

definition script_languages_second :: string where
  "script_languages_second = text_lines lines_languages_second"

definition lines_platform :: "string list" where
  \<open>lines_platform =
    ['''',
     ''      Object.defineProperty(navigator, 'platform', {'',
     ''        get: () => 'Win32','',
     ''        configurable: true,'',
     ''        enumerable: true,'',
     ''      });'',
     ''    '']\<close>

definition script_platform :: string where
  "script_platform = text_lines lines_platform"

definition lines_hardwareConcurrency :: "string list" where
  \<open>lines_hardwareConcurrency =
    ['''',
     ''      Object.defineProperty(navigator, 'hardwareConcurrency', {'',
     ''        get: () => 4,'',
     ''        configurable: true,'',
     ''        enumerable: true,'',
     ''      });'',
     ''    '']\<close>

definition script_hardwareConcurrency :: string where
  "script_hardwareConcurrency = text_lines lines_hardwareConcurrency"

definition lines_deviceMemory :: "string list" where
  \<open>lines_deviceMemory =
    ['''',
     ''      Object.defineProperty(navigator, 'deviceMemory', {'',
     ''        get: () => 8,'',
     ''        configurable: true,'',
     ''        enumerable: true,'',
     ''      });'',
     ''    '']\<close>

definition script_deviceMemory :: string where
  "script_deviceMemory = text_lines lines_deviceMemory"

definition lines_screen_width :: "string list" where
  \<open>lines_screen_width =
    ['''',
     ''      Object.defineProperty(screen, 'width', {'',
     ''        get: () => 1920,'',
     ''        configurable: true,'',
     ''        enumerable: true,'',
     ''      });'',
     ''    '']\<close>

definition script_screen_width :: string where
  "script_screen_width = text_lines lines_screen_width"

definition lines_screen_height :: "string list" where
  \<open>lines_screen_height =
    ['''',
     ''      Object.defineProperty(screen, 'height', {'',
     ''        get: () => 1080,'',
     ''        configurable: true,'',
     ''        enumerable: true,'',
     ''      });'',
     ''    '']\<close>

definition script_screen_height :: string where
  "script_screen_height = text_lines lines_screen_height"

definition lines_screen_availWidth :: "string list" where
  \<open>lines_screen_availWidth =
    ['''',
     ''      Object.defineProperty(screen, 'availWidth', {'',
     ''        get: () => 1920,'',
     ''        configurable: true,'',
     ''        enumerable: true,'',
     ''      });'',
     ''    '']\<close>

definition script_screen_availWidth :: string where
  "script_screen_availWidth = text_lines lines_screen_availWidth"

definition lines_screen_availHeight :: "string list" where
  \<open>lines_screen_availHeight =
    ['''',
     ''      Object.defineProperty(screen, 'availHeight', {'',
     ''        get: () => 1040,'',
     ''        configurable: true,'',
     ''        enumerable: true,'',
     ''      });'',
     ''    '']\<close>

definition script_screen_availHeight :: string where
  "script_screen_availHeight = text_lines lines_screen_availHeight"

definition lines_devicePixelRatio :: "string list" where
  \<open>lines_devicePixelRatio =
    ['''',
     ''      Object.defineProperty(window, 'devicePixelRatio', {'',
     ''        get: () => 1,'',
     ''        configurable: true,'',
     ''        enumerable: true,'',
     ''      });'',
     ''    '']\<close>

definition script_devicePixelRatio :: string where
  "script_devicePixelRatio = text_lines lines_devicePixelRatio"

definition lines_screen_colorDepth :: "string list" where
  \<open>lines_screen_colorDepth =
    ['''',
     ''      Object.defineProperty(screen, 'colorDepth', {'',
     ''        get: () => 24,'',
     ''        configurable: true,'',
     ''        enumerable: true,'',
     ''      });'',
     ''    '']\<close>

definition script_screen_colorDepth :: string where
  "script_screen_colorDepth = text_lines lines_screen_colorDepth"

definition lines_maxTouchPoints :: "string list" where
  \<open>lines_maxTouchPoints =
    ['''',
     ''      Object.defineProperty(navigator, 'maxTouchPoints', {'',
     ''        get: () => 0,'',
     ''        configurable: true,'',
     ''        enumerable: true,'',
     ''      });'',
     ''    '']\<close>

definition script_maxTouchPoints :: string where
  "script_maxTouchPoints = text_lines lines_maxTouchPoints"

definition lines_touchSupport :: "string list" where
  \<open>lines_touchSupport =
    ['''',
     ''      Object.defineProperty(navigator, 'touchSupport', {'',
     ''        get: () => true,'',
     ''        configurable: true,'',
     ''        enumerable: true,'',
     ''      });'',
     ''    '']\<close>

definition script_touchSupport :: string where
  "script_touchSupport = text_lines lines_touchSupport"

definition lines_chrome :: "string list" where
  \<open>lines_chrome =
    ['''',
     ''      Object.defineProperty(window, 'chrome', {'',
     ''        get: () => ({'',
     ''          runtime: {'',
     ''            onInstalled: { addListener: () => {} },'',
     ''            onStartup: { addListener: () => {} },'',
     ''            onSuspend: { addListener: () => {} },'',
     ''            onUpdateAvailable: { addListener: () => {} },'',
     ''            requestUpdateCheck: () => ({ status: 'no_update' }),'',
     ''            restart: () => {},'',
     ''            connect: () => ({ onMessage: { addListener: () => {} }, onDisconnect: { addListener: () => {} }, postMessage: () => {}, disconnect: () => {} }),'',
     ''            sendMessage: () => Promise.resolve({}),'',
     ''          },'',
     ''          loadTimes: () => ({'',
     ''            requestTime: Date.now() / 1000,'',
     ''            startLoadTime: Date.now() / 1000,'',
     ''            commitLoadTime: Date.now() / 1000,'',
     ''            finishLoadTime: Date.now() / 1000,'',
     ''            firstPaintTime: Date.now() / 1000,'',
     ''            firstContentfulPaintTime: Date.now() / 1000,'',
     ''            largestContentfulPaintTime: Date.now() / 1000,'',
     ''          }),'',
     ''          csi: () => ({'',
     ''            startE: Date.now(),'',
     ''            startS: Date.now(),'',
     ''            startC: Date.now(),'',
     ''            startEcs: Date.now(),'',
     ''            endEcs: Date.now(),'',
     ''          }),'',
     ''          app: {'',
     ''            GET_IS_INSTALLED: () => false,'',
     ''            INSTALL_TYPE: () => 'none','',
     ''            getDetails: () => ({ id: '' @ [CHR 0x27, CHR 0x27] @ '', isExternal: false, launchURL: '' @ [CHR 0x27, CHR 0x27] @ '', installedTime: 0, lastUpdateTime: 0 }),'',
     ''          },'',
     ''          webstore: {'',
     ''            onInstallStageChanged: { addListener: () => {} },'',
     ''            onDownloadProgress: { addListener: () => {} },'',
     ''            install: () => Promise.resolve(),'',
     ''          },'',
     ''          runtime: {'',
     ''            id: '' @ [CHR 0x27, CHR 0x27] @ '','',
     ''            sendMessage: () => Promise.resolve(),'',
     ''            onMessageExternal: { addListener: () => {} },'',
     ''            onConnectExternal: { addListener: () => {} },'',
     ''          },'',
     ''        }),'',
     ''        configurable: true,'',
     ''        enumerable: true,'',
     ''      });'',
     ''    '']\<close>

definition script_chrome :: string where
  "script_chrome = text_lines lines_chrome"

definition lines_permissions :: "string list" where
  \<open>lines_permissions =
    ['''',
     ''      const originalQuery = navigator.permissions.query;'',
     ''      navigator.permissions.query = (parameters) => {'',
     ''        if (parameters.name === 'notifications') {'',
     ''          return Promise.resolve({ state: 'denied', onchange: null });'',
     ''        }'',
     ''        return originalQuery(parameters);'',
     ''      };'',
     ''    '']\<close>

definition script_permissions :: string where
  "script_permissions = text_lines lines_permissions"

definition lines_frameElement :: "string list" where
  \<open>lines_frameElement =
    ['''',
     ''      Object.defineProperty(window, 'frameElement', {'',
     ''        get: () => null,'',
     ''        configurable: true,'',
     ''        enumerable: true,'',
     ''      });'',
     ''    '']\<close>

definition script_frameElement :: string where
  "script_frameElement = text_lines lines_frameElement"

definition lines_frames :: "string list" where
  \<open>lines_frames =
    ['''',
     ''      Object.defineProperty(window, 'frames', {'',
     ''        get: () => window,'',
     ''        configurable: true,'',
     ''        enumerable: true,'',
     ''      });'',
     ''    '']\<close>

definition script_frames :: string where
  "script_frames = text_lines lines_frames"

definition lines_doNotTrack :: "string list" where
  \<open>lines_doNotTrack =
    ['''',
     ''      Object.defineProperty(navigator, 'doNotTrack', {'',
     ''        get: () => 'unspecified','',
     ''        configurable: true,'',
     ''        enumerable: true,'',
     ''      });'',
     ''    '']\<close>

definition script_doNotTrack :: string where
  "script_doNotTrack = text_lines lines_doNotTrack"

definition lines_plugins :: "string list" where
  \<open>lines_plugins =
    ['''',
     ''      const pluginData = ['',
     ''        { name: 'Chrome PDF Plugin', filename: 'internal-pdf-viewer', description: 'Portable Document Format', mimeTypes: [{ type: 'application/pdf', suffixes: 'pdf' }] },'',
     ''        { name: 'Chrome PDF Viewer', filename: 'mhjfbmdgcfjbbpaeojofohoefgiehjai', description: 'Portable Document Format', mimeTypes: [{ type: 'application/pdf', suffixes: 'pdf' }] },'',
     ''        { name: 'Native Client', filename: 'internal-nacl-plugin', description: 'Native Client executable', mimeTypes: [{ type: 'application/x-nacl', suffixes: '' @ [CHR 0x27, CHR 0x27] @ '' }, { type: 'application/x-pnacl', suffixes: '' @ [CHR 0x27, CHR 0x27] @ '' }] },'',
     ''      ];'',
     ''      '',
     ''      Object.defineProperty(navigator, 'plugins', {'',
     ''        get: () => pluginData,'',
     ''        configurable: true,'',
     ''        enumerable: true,'',
     ''      });'',
     ''    '']\<close>

definition script_plugins :: string where
  "script_plugins = text_lines lines_plugins"

definition lines_mimeTypes :: "string list" where
  \<open>lines_mimeTypes =
    ['''',
     ''      Object.defineProperty(navigator, 'mimeTypes', {'',
     ''        get: () => {'',
     ''          const mimeTypes = [];'',
     ''          navigator.plugins.forEach((plugin) => {'',
     ''            plugin.forEach((mimeType) => {'',
     ''              mimeTypes.push(mimeType);'',
     ''            });'',
     ''          });'',
     ''          return mimeTypes;'',
     ''        },'',
     ''        configurable: true,'',
     ''        enumerable: true,'',
     ''      });'',
     ''    '']\<close>

definition script_mimeTypes :: string where
  "script_mimeTypes = text_lines lines_mimeTypes"

definition lines_mediaDevices :: "string list" where
  \<open>lines_mediaDevices =
    ['''',
     ''      Object.defineProperty(navigator, 'mediaDevices', {'',
     ''        get: () => ({'',
     ''          enumerateDevices: () => Promise.resolve(['',
     ''            { deviceId: 'default', kind: 'audioinput', label: 'Default - Microphone', groupId: 'default' },'',
     ''            { deviceId: 'default', kind: 'videoinput', label: 'Default - Camera', groupId: 'default' },'',
     ''          ]),'',
     ''          getUserMedia: () => Promise.reject(new Error('Not allowed')),'',
     ''          getDisplayMedia: () => Promise.reject(new Error('Not allowed')),'',
     ''          addEventListener: () => {},'',
     ''          removeEventListener: () => {},'',
     ''          dispatchEvent: () => true,'',
     ''        }),'',
     ''        configurable: true,'',
     ''        enumerable: true,'',
     ''      });'',
     ''    '']\<close>

definition script_mediaDevices :: string where
  "script_mediaDevices = text_lines lines_mediaDevices"

definition lines_webglVendor :: "string list" where
  \<open>lines_webglVendor =
    ['''',
     ''    const getParameter = WebGLRenderingContext.prototype.getParameter;'',
     ''    WebGLRenderingContext.prototype.getParameter = function(parameter) {'',
     ''      if (parameter === 37445) {'',
     ''        return 'Intel Open Source Technology Center';'',
     ''      }'',
     ''      if (parameter === 37446) {'',
     ''        return 'Mesa DRI Intel(R) UHD Graphics 630 (CFL GT2)';'',
     ''      }'',
     ''      return getParameter.call(this, parameter);'',
     ''    };'',
     ''  '']\<close>

definition script_webglVendor :: string where
  "script_webglVendor = text_lines lines_webglVendor"

definition lines_userActivation :: "string list" where
  \<open>lines_userActivation =
    ['''',
     ''    // Remove CDP automation flags'',
     ''    Object.defineProperty(navigator, 'userActivation', {'',
     ''      get: () => ({ isActive: true, hasBeenActive: true }),'',
     ''      configurable: true,'',
     ''    });'',
     ''  '']\<close>

definition script_userActivation :: string where
  "script_userActivation = text_lines lines_userActivation"

definition lines_connection :: "string list" where
  \<open>lines_connection =
    ['''',
     ''    Object.defineProperty(navigator, 'connection', {'',
     ''      get: () => ({'',
     ''        downlink: 10,'',
     ''        effectiveType: '4g','',
     ''        rtt: 50,'',
     ''        saveData: false,'',
     ''        type: 'wifi','',
     ''        addEventListener: () => {},'',
     ''        removeEventListener: () => {},'',
     ''        dispatchEvent: () => true,'',
     ''      }),'',
     ''      configurable: true,'',
     ''      enumerable: true,'',
     ''    });'',
     ''  '']\<close>

definition script_connection :: string where
  "script_connection = text_lines lines_connection"

definition lines_canvasNoise :: "string list" where
  \<open>lines_canvasNoise =
    ['''',
     ''      // Canvas fingerprint spoofing with random noise'',
     ''      const canvasNoise = () => {'',
     ''        const noise = Math.random() * 0.000001;'',
     ''        return noise;'',
     ''      };'',
     ''      '',
     ''      const originalToDataURL = HTMLCanvasElement.prototype.toDataURL;'',
     ''      HTMLCanvasElement.prototype.toDataURL = function(type, encoderOptions) {'',
     ''        if (this.width === 0 || this.height === 0) {'',
     ''          return originalToDataURL.call(this, type, encoderOptions);'',
     ''        }'',
     ''        const ctx = this.getContext('2d');'',
     ''        if (ctx) {'',
     ''          // Add subtle noise to pixel data'',
     ''          const imageData = ctx.getImageData(0, 0, this.width, this.height);'',
     ''          const data = imageData.data;'',
     ''          for (let i = 0; i < data.length; i += 4) {'',
     ''            const noise = (Math.random() - 0.5) * 2;'',
     ''            data[i] = Math.max(0, Math.min(255, data[i] + noise));'',
     ''            data[i + 1] = Math.max(0, Math.min(255, data[i + 1] + noise));'',
     ''            data[i + 2] = Math.max(0, Math.min(255, data[i + 2] + noise));'',
     ''          }'',
     ''          ctx.putImageData(imageData, 0, 0);'',
     ''        }'',
     ''        return originalToDataURL.call(this, type, encoderOptions);'',
     ''      };'',
     ''      '',
     ''      const originalGetImageData = CanvasRenderingContext2D.prototype.getImageData;'',
     ''      CanvasRenderingContext2D.prototype.getImageData = function(sx, sy, sw, sh) {'',
     ''        const data = originalGetImageData.call(this, sx, sy, sw, sh);'',
     ''        // Add slight noise to prevent exact fingerprinting'',
     ''        for (let i = 0; i < data.data.length; i++) {'',
     ''          if (Math.random() > 0.99) {'',
     ''            data.data[i] = (data.data[i] + Math.random() * 0.5) % 256;'',
     ''          }'',
     ''        }'',
     ''        return data;'',
     ''      };'',
     ''    '']\<close>

definition script_canvasNoise :: string where
  "script_canvasNoise = text_lines lines_canvasNoise"

definition lines_webglNoise :: "string list" where
  \<open>lines_webglNoise =
    ['''',
     ''      // WebGL fingerprint spoofing'',
     ''      const webglNoise = () => {'',
     ''        return Math.random() * 0.0001;'',
     ''      };'',
     ''      '',
     ''      // Spoof WebGL vendor and renderer'',
     ''      const getParameter = WebGLRenderingContext.prototype.getParameter;'',
     ''      WebGLRenderingContext.prototype.getParameter = function(parameter) {'',
     ''        // Add noise to numeric parameters'',
     ''        if (typeof parameter === 'number') {'',
     ''          const noise = webglNoise();'',
     ''          const original = getParameter.call(this, parameter);'',
     ''          if (typeof original === 'number') {'',
     ''            return original + noise;'',
     ''          }'',
     ''        }'',
     ''        '',
     ''        // Spoof vendor strings'',
     ''        if (parameter === 37445) {'',
     ''          return 'NVIDIA Corporation';'',
     ''        }'',
     ''        if (parameter === 37446) {'',
     ''          return 'GeForce RTX 3080/PCIe/SSE2';'',
     ''        }'',
     ''        if (parameter === 7937) {'',
     ''          return 'WebKit';'',
     ''        }'',
     ''        if (parameter === 7938) {'',
     ''          return 'WebGL 2.0';'',
     ''        }'',
     ''        return getParameter.call(this, parameter);'',
     ''      };'',
     ''      '',
     ''      // Add noise to WebGL rendering'',
     ''      const originalClear = WebGLRenderingContext.prototype.clear;'',
     ''      WebGLRenderingContext.prototype.clear = function(mask) {'',
     ''        // Randomize clear color slightly'',
     ''        if (Math.random() > 0.95) {'',
     ''          this.clearColor('',
     ''            Math.random() * 0.1,'',
     ''            Math.random() * 0.1,'',
     ''            Math.random() * 0.1,'',
     ''            1.0'',
     ''          );'',
     ''        }'',
     ''        return originalClear.call(this, mask);'',
     ''      };'',
     ''      '',
     ''      // Spoof WebGL2 parameters'',
     ''      const getParameter2 = WebGL2RenderingContext.prototype.getParameter;'',
     ''      WebGL2RenderingContext.prototype.getParameter = function(parameter) {'',
     ''        if (parameter === 37445) {'',
     ''          return 'NVIDIA Corporation';'',
     ''        }'',
     ''        if (parameter === 37446) {'',
     ''          return 'GeForce RTX 3080/PCIe/SSE2';'',
     ''        }'',
     ''        return getParameter2.call(this, parameter);'',
     ''      };'',
     ''    '']\<close>

definition script_webglNoise :: string where
  "script_webglNoise = text_lines lines_webglNoise"

definition lines_audioContextNoise :: "string list" where
  \<open>lines_audioContextNoise =
    ['''',
     ''      // AudioContext fingerprint spoofing'',
     ''      const audioNoise = () => {'',
     ''        return Math.random() * 0.0000001;'',
     ''      };'',
     ''      '',
     ''      const originalGetChannelData = AudioContext.prototype.createBuffer;'',
     ''      AudioContext.prototype.createBuffer = function(numberOfChannels, length, sampleRate) {'',
     ''        const buffer = originalGetChannelData.call(this, numberOfChannels, length, sampleRate);'',
     ''        // Add tiny noise to prevent exact fingerprinting'',
     ''        for (let i = 0; i < buffer.numberOfChannels; i++) {'',
     ''          const channelData = buffer.getChannelData(i);'',
     ''          for (let j = 0; j < channelData.length; j += 1000) {'',
     ''            channelData[j] += audioNoise();'',
     ''          }'',
     ''        }'',
     ''        return buffer;'',
     ''      };'',
     ''      '',
     ''      const originalDecodeAudioData = AudioContext.prototype.decodeAudioData;'',
     ''      AudioContext.prototype.decodeAudioData = function(audioData, successCallback, errorCallback) {'',
     ''        const success = successCallback;'',
     ''        const error = errorCallback;'',
     ''        return originalDecodeAudioData.call(this, audioData, '',
     ''          (decodedBuffer) => {'',
     ''            // Add noise to decoded buffer'',
     ''            if (decodedBuffer) {'',
     ''              for (let i = 0; i < decodedBuffer.numberOfChannels; i++) {'',
     ''                const channelData = decodedBuffer.getChannelData(i);'',
     ''                for (let j = 0; j < channelData.length; j += 500) {'',
     ''                  channelData[j] += audioNoise();'',
     ''                }'',
     ''              }'',
     ''            }'',
     ''            if (success) success(decodedBuffer);'',
     ''          },'',
     ''          error'',
     ''        );'',
     ''      };'',
     ''    '']\<close>

definition script_audioContextNoise :: string where
  "script_audioContextNoise = text_lines lines_audioContextNoise"

definition lines_behaviorRandomization :: "string list" where
  \<open>lines_behaviorRandomization =
    ['''',
     ''      // Human behavior randomization'',
     ''      '',
     ''      // Randomize scroll behavior'',
     ''      const originalScroll = window.scrollTo;'',
     ''      window.scrollTo = function(x, y) {'',
     ''        if (typeof x === 'object') {'',
     ''          x = x.left || 0;'',
     ''          y = x.top || 0;'',
     ''        }'',
     ''        // Add small random offset'',
     ''        const randomX = x + (Math.random() - 0.5) * 10;'',
     ''        const randomY = y + (Math.random() - 0.5) * 10;'',
     ''        originalScroll.call(this, Math.max(0, randomX), Math.max(0, randomY));'',
     ''      };'',
     ''      '',
     ''      // Add random mouse movements simulation'',
     ''      let mouseMoveCount = 0;'',
     ''      document.addEventListener('mousemove', () => {'',
     ''        mouseMoveCount++;'',
     ''      });'',
     ''      '',
     ''      // Randomize click timing'',
     ''      const originalClick = HTMLElement.prototype.click;'',
     ''      HTMLElement.prototype.click = function() {'',
     ''        // Simulate human-like delay'',
     ''        const delay = Math.random() * 50 + 10;'',
     ''        setTimeout(() => {'',
     ''          originalClick.call(this);'',
     ''        }, delay);'',
     ''      };'',
     ''      '',
     ''      // Randomize focus events'',
     ''      const originalFocus = HTMLElement.prototype.focus;'',
     ''      HTMLElement.prototype.focus = function() {'',
     ''        const delay = Math.random() * 30 + 5;'',
     ''        setTimeout(() => {'',
     ''          originalFocus.call(this);'',
     ''        }, delay);'',
     ''      };'',
     ''      '',
     ''      // Spoof document.hidden'',
     ''      Object.defineProperty(document, 'hidden', {'',
     ''        get: () => false,'',
     ''        configurable: true,'',
     ''      });'',
     ''      '',
     ''      Object.defineProperty(document, 'visibilityState', {'',
     ''        get: () => 'visible','',
     ''        configurable: true,'',
     ''      });'',
     ''      '',
     ''      // Add random viewport offset'',
     ''      Object.defineProperty(window, 'scrollX', {'',
     ''        get: () => Math.floor(Math.random() * 5),'',
     ''        configurable: true,'',
     ''      });'',
     ''      '',
     ''      Object.defineProperty(window, 'scrollY', {'',
     ''        get: () => Math.floor(Math.random() * 5),'',
     ''        configurable: true,'',
     ''      });'',
     ''      '',
     ''      // Randomize Performance API'',
     ''      const originalNow = performance.now;'',
     ''      performance.now = function() {'',
     ''        const now = originalNow.call(this);'',
     ''        // Add small random offset to prevent timing fingerprinting'',
     ''        return now + (Math.random() - 0.5) * 0.5;'',
     ''      };'',
     ''      '',
     ''      // Add random variation to Date'',
     ''      const originalDate = Date;'',
     ''      Date = function(...args) {'',
     ''        if (args.length === 0) {'',
     ''          return new originalDate(originalDate.now() + (Math.random() - 0.5) * 100);'',
     ''        }'',
     ''        return new originalDate(...args);'',
     ''      };'',
     ''      Date.now = function() {'',
     ''        return originalDate.now() + (Math.random() - 0.5) * 100;'',
     ''      };'',
     ''    '']\<close>

definition script_behaviorRandomization :: string where
  "script_behaviorRandomization = text_lines lines_behaviorRandomization"

definition lines_speechSynthesis :: "string list" where
  \<open>lines_speechSynthesis =
    ['''',
     ''    Object.defineProperty(window, 'speechSynthesis', {'',
     ''      get: () => ({'',
     ''        pending: false,'',
     ''        speaking: false,'',
     ''        paused: false,'',
     ''        addEventListener: () => {},'',
     ''        removeEventListener: () => {},'',
     ''        dispatchEvent: () => true,'',
     ''        cancel: () => {},'',
     ''        speak: () => {},'',
     ''        pause: () => {},'',
     ''        resume: () => {},'',
     ''        getVoices: () => [],'',
     ''      }),'',
     ''      configurable: true,'',
     ''    });'',
     ''  '']\<close>

definition script_speechSynthesis :: string where
  "script_speechSynthesis = text_lines lines_speechSynthesis"

definition lines_getGamepads :: "string list" where
  \<open>lines_getGamepads =
    ['''',
     ''    Object.defineProperty(navigator, 'getGamepads', {'',
     ''      get: () => () => Array(4).fill(null),'',
     ''      configurable: true,'',
     ''    });'',
     ''  '']\<close>

definition script_getGamepads :: string where
  "script_getGamepads = text_lines lines_getGamepads"

definition lines_getBattery :: "string list" where
  \<open>lines_getBattery =
    ['''',
     ''    Object.defineProperty(navigator, 'getBattery', {'',
     ''      get: () => () => Promise.resolve({'',
     ''        charging: true,'',
     ''        chargingTime: 0,'',
     ''        dischargingTime: Infinity,'',
     ''        level: 1,'',
     ''        addEventListener: () => {},'',
     ''        removeEventListener: () => {},'',
     ''      }),'',
     ''      configurable: true,'',
     ''    });'',
     ''  '']\<close>

definition script_getBattery :: string where
  "script_getBattery = text_lines lines_getBattery"

definition lines_clipboard :: "string list" where
  \<open>lines_clipboard =
    ['''',
     ''    Object.defineProperty(navigator, 'clipboard', {'',
     ''      get: () => ({'',
     ''        readText: () => Promise.reject(new Error('Clipboard access denied')),'',
     ''        writeText: () => Promise.reject(new Error('Clipboard access denied')),'',
     ''        read: () => Promise.reject(new Error('Clipboard access denied')),'',
     ''        write: () => Promise.reject(new Error('Clipboard access denied')),'',
     ''        addEventListener: () => {},'',
     ''        removeEventListener: () => {},'',
     ''      }),'',
     ''      configurable: true,'',
     ''    });'',
     ''  '']\<close>

definition script_clipboard :: string where
  "script_clipboard = text_lines lines_clipboard"


section \<open>generateStealthScript\<close>

text \<open>
  The function works on its parameter \<open>config\<close>, its local array \<open>scripts\<close> and nothing
  else; the state below also carries the ambient randomization source, so that what the
  function does to it (nothing) can be stated. A statement of the body is a state
  transformer.
\<close>

record 'c gen_state =
  config :: 'c
  scripts :: "string list"
  rng :: random_source

text \<open>\<open>scripts.push(s)\<close>\<close>

definition push :: "string \<Rightarrow> 'c gen_state \<Rightarrow> 'c gen_state" where
  "push s st = st\<lparr>scripts := scripts st @ [s]\<rparr>"

text \<open>Statements in sequence.\<close>

definition block :: "('s \<Rightarrow> 's) list \<Rightarrow> 's \<Rightarrow> 's" where
  "block stmts st = fold (\<lambda>stmt. stmt) stmts st"

text \<open>Consecutive pushes, the only thing the body of an \<open>if\<close> of this function holds.\<close>

definition pushes :: "string list \<Rightarrow> 'c gen_state \<Rightarrow> 'c gen_state" where
  "pushes ss = block (map push ss)"

text \<open>\<open>if (cond) { body }\<close>, the condition reading the configuration only.\<close>

definition if_then :: "('c \<Rightarrow> bool) \<Rightarrow> ('c gen_state \<Rightarrow> 'c gen_state) \<Rightarrow> 'c gen_state \<Rightarrow> 'c gen_state" where
  "if_then cond body st = (if cond (config st) then body st else st)"

text \<open>
  The statements both variants share (lines 56 to 386 of the basic file, 65 to 395 of
  stealth.ts). \<open>x !== false\<close> on an optional boolean is \<open>x \<noteq> Some False\<close>.
\<close>

definition basic_statements ::
  "'a StealthConfig_basic_scheme gen_state \<Rightarrow> 'a StealthConfig_basic_scheme gen_state" where
  "basic_statements st = block
    [if_then (\<lambda>config. webdriver config \<noteq> Some False)
       (pushes [script_webdriver]),
     if_then (\<lambda>config. navigator config \<noteq> Some False)
       (pushes [script_languages_first, script_language, script_languages_second]),
     if_then (\<lambda>config. navigatorPlatform config \<noteq> Some False)
       (pushes [script_platform]),
     if_then (\<lambda>config. navigatorHardwareConcurrency config \<noteq> Some False)
       (pushes [script_hardwareConcurrency]),
     if_then (\<lambda>config. navigatorDeviceMemory config \<noteq> Some False)
       (pushes [script_deviceMemory]),
     if_then (\<lambda>config. screenWidth config \<noteq> Some False \<or> screenHeight config \<noteq> Some False
                \<or> pixelRatio config \<noteq> Some False \<or> colorDepth config \<noteq> Some False)
       (pushes [script_screen_width, script_screen_height, script_screen_availWidth,
                script_screen_availHeight, script_devicePixelRatio, script_screen_colorDepth]),
     if_then (\<lambda>config. touchSupport config \<noteq> Some False)
       (pushes [script_maxTouchPoints, script_touchSupport]),
     if_then (\<lambda>config. chromeRuntime config \<noteq> Some False)
       (pushes [script_chrome]),
     if_then (\<lambda>config. permissions config \<noteq> Some False)
       (pushes [script_permissions]),
     if_then (\<lambda>config. windowFrame config \<noteq> Some False)
       (pushes [script_frameElement, script_frames]),
     if_then (\<lambda>config. doNotTrack config \<noteq> Some False)
       (pushes [script_doNotTrack]),
     if_then (\<lambda>config. plugins config \<noteq> Some False)
       (pushes [script_plugins, script_mimeTypes]),
     if_then (\<lambda>config. mediaDevices config \<noteq> Some False)
       (pushes [script_mediaDevices]),
     push script_webglVendor,
     push script_userActivation,
     push script_connection] st"

text \<open>The statements of the enhanced variant that follow them (lines 400 to 695).\<close>

definition enhanced_statements :: "StealthConfig gen_state \<Rightarrow> StealthConfig gen_state" where
  "enhanced_statements st = block
    [if_then (\<lambda>config. canvasNoise config \<noteq> Some False)
       (pushes [script_canvasNoise]),
     if_then (\<lambda>config. webglNoise config \<noteq> Some False)
       (pushes [script_webglNoise]),
     if_then (\<lambda>config. audioContextNoise config \<noteq> Some False)
       (pushes [script_audioContextNoise]),
     if_then (\<lambda>config. behaviorRandomization config \<noteq> Some False)
       (pushes [script_behaviorRandomization]),
     push script_speechSynthesis,
     push script_getGamepads,
     push script_getBattery,
     push script_clipboard] st"

text \<open>
  The state in which the function reaches its \<open>return\<close>, and what it returns:
  \<open>scripts.join('\n')\<close>, with the randomization source as the call leaves it.
\<close>

definition generateStealthScript_exec :: "StealthConfig \<Rightarrow> random_source \<Rightarrow> StealthConfig gen_state" where
  "generateStealthScript_exec cfg rs =
     enhanced_statements (basic_statements \<lparr>config = cfg, scripts = [], rng = rs\<rparr>)"

definition generateStealthScript :: "StealthConfig \<Rightarrow> random_source \<Rightarrow> string \<times> random_source" where
  "generateStealthScript cfg rs =
     (let st = generateStealthScript_exec cfg rs in (join newline (scripts st), rng st))"

text \<open>The basic variant of the function.\<close>

definition generateStealthScript_basic_exec ::
  "StealthConfig_basic \<Rightarrow> random_source \<Rightarrow> StealthConfig_basic gen_state" where
  "generateStealthScript_basic_exec cfg rs =
     basic_statements \<lparr>config = cfg, scripts = [], rng = rs\<rparr>"

definition generateStealthScript_basic ::
  "StealthConfig_basic \<Rightarrow> random_source \<Rightarrow> string \<times> random_source" where
  "generateStealthScript_basic cfg rs =
     (let st = generateStealthScript_basic_exec cfg rs in (join newline (scripts st), rng st))"

section \<open>generateRealisticUserAgent and generateStealthArgs\<close>

definition chrome_versions :: "string list" where
  "chrome_versions = [''131.0.0.0'', ''132.0.0.0'', ''133.0.0.0'']"

definition safari_versions :: "string list" where
  "safari_versions = [''605.1.15'', ''616.4.1'', ''617.1.15'']"

text \<open>
  Reading an array at a number: an index outside the array gives \<open>undefined\<close> (\<open>None\<close>),
  it does not throw. A template literal renders \<open>undefined\<close> as the text \<open>undefined\<close>.
\<close>

definition array_get :: "'a list \<Rightarrow> int \<Rightarrow> 'a option" where
  "array_get xs i = (if 0 \<le> i \<and> i < int (length xs) then Some (xs ! nat i) else None)"

definition interpolate :: "string option \<Rightarrow> string" where
  "interpolate v = (case v of None \<Rightarrow> ''undefined'' | Some s \<Rightarrow> s)"

text \<open>\<open>pool[Math.floor(Math.random() * pool.length)]\<close>\<close>

definition random_element :: "'a list \<Rightarrow> random_source \<Rightarrow> 'a option \<times> random_source" where
  "random_element pool rs =
     (let (r, rs') = Math_random rs
      in (array_get pool (Math_floor (double_times_nat r (length pool))), rs'))"

text \<open>
  generateRealisticUserAgent: its two local constants and the randomization source when
  it reaches its \<open>return\<close>, and what it returns.
\<close>

record user_agent_state =
  randomChrome :: "string option"
  randomSafari :: "string option"
  source :: random_source

definition generateRealisticUserAgent_exec :: "random_source \<Rightarrow> user_agent_state" where
  "generateRealisticUserAgent_exec rs =
     (let (chrome, rs1) = random_element chrome_versions rs;
          (safari, rs2) = random_element safari_versions rs1
      in \<lparr>randomChrome = chrome, randomSafari = safari, source = rs2\<rparr>)"

definition generateRealisticUserAgent :: "random_source \<Rightarrow> string \<times> random_source" where
  "generateRealisticUserAgent rs =
     (let st = generateRealisticUserAgent_exec rs
      in (''Mozilla/5.0 (Windows NT 10.0; Win64; x64) AppleWebKit/537.36 (KHTML, like Gecko) Chrome/''
            @ interpolate (randomChrome st) @ '' Safari/537.36'', source st))"

definition generateStealthArgs :: "random_source \<Rightarrow> string list \<times> random_source" where
  "generateStealthArgs rs =
     (let (userAgent, rs') = generateRealisticUserAgent rs in
     ([''--disable-blink-features=AutomationControlled'',
      ''--disable-automation'',
      ''--enable-automation'',
      ''--disable-dev-shm-usage'',
      ''--no-sandbox'',
      ''--disable-setuid-sandbox'',
      ''--disable-gpu'',
      ''--disable-dev-shm-usage'',
      ''--disable-accelerated-2d-canvas'',
      ''--window-size=1920,1080'',
      ''--window-position=0,0'',
      ''--start-maximized'',
      ''--maximize'',
      ''--disable-web-security'',
      ''--disable-features=IsolateOrigins,site-per-process,TranslateUI'',
      ''--disable-benchmarking'',
      ''--disable-extensions'',
      ''--disable-background-networking'',
      ''--disable-sync'',
      ''--disable-translate'',
      ''--metrics-recording-only'',
      ''--mute-audio'',
      ''--safebrowsing-disable-auto-update'',
      ''--safebrowsing-disable-download-protection'',
      ''--password-store=basic'',
      ''--use-mock-keychain'',
      ''--disable-autofill-assistant'',
      ''--disable-password-generation'',
      ''--disable-save-password-bubble'',
      ''--disable-software-rasterizer'',
      ''--disable-accelerated-video-decode'',
      ''--disable-frame-rate-limit'',
      ''--ignore-gpu-blocklist'',
      ''--disable-ipc-flooding-protection'',
      ''--disable-prompt-on-repost'',
      ''--noerrdialogs'',
      ''--disable-breakpad'',
      ''--disable-logging'',
      ''--disable-metrics'',
      ''--disable-metrics-reporting'',
      ''--user-agent='' @ userAgent], rs'))"

text \<open>The basic variant returns a constant array and does not touch the source.\<close>

definition generateStealthArgs_basic :: "random_source \<Rightarrow> string list \<times> random_source" where
  "generateStealthArgs_basic rs =
     ([''--disable-blink-features=AutomationControlled'',
      ''--disable-dev-shm-usage'',
      ''--no-sandbox'',
      ''--window-size=1920,1080'',
      ''--start-maximized'',
      ''--disable-web-security'',
      ''--disable-features=IsolateOrigins,site-per-process'',
      ''--disable-benchmarking'',
      ''--disable-extensions'',
      ''--disable-background-networking'',
      ''--disable-sync'',
      ''--disable-translate'',
      ''--metrics-recording-only'',
      ''--mute-audio'',
      ''--safebrowsing-disable-auto-update'',
      ''--enable-automation'',
      ''--disable-automation'',
      ''--password-store=basic'',
      ''--use-mock-keychain''], rs)"

section \<open>Calls of the exported functions\<close>

text \<open>
  The functions are exported, and JavaScript passes them any value. A call either throws
  or returns. A value is \<open>undefined\<close>, \<open>null\<close>, a boolean, a number, a string or an
  object, which is taken as its data properties (a property it does not have reads as
  \<open>undefined\<close>); no operation of these functions reads the number of a number, so
  integers stand for them.
\<close>

datatype js_value =
    JS_undefined
  | JS_null
  | JS_boolean bool
  | JS_number int
  | JS_string string
  | JS_object "string \<Rightarrow> js_value"



text \<open>
  The configuration that generateStealthScript sees in a value. The function compares a
  field with \<open>false\<close> and does nothing else with it, so a field that holds no boolean
  passes every guard as an absent field does.
\<close>

definition optional_boolean :: "js_value \<Rightarrow> bool option" where
  "optional_boolean v = (case v of JS_boolean b \<Rightarrow> Some b | _ \<Rightarrow> None)"








section \<open>The patch catalog\<close>

text \<open>
  The specification describes the generator as a filter over an ordered catalog of patch
  groups, each with its gating configuration key. The catalog below lists, in the order
  of the pushes, the group of every recipe; \<open>keys_of\<close> gives the configuration fields
  that the \<open>if\<close> around the group's pushes reads (none for a push outside every \<open>if\<close>).
  The statements above are the model of the code; the catalog is what the claims about
  groups are stated on, and the two are proved to agree.
\<close>

datatype patch_group =
    G_webdriver
  | G_navigator
  | G_navigatorPlatform
  | G_navigatorHardwareConcurrency
  | G_navigatorDeviceMemory
  | G_screen
  | G_touchSupport
  | G_chromeRuntime
  | G_permissions
  | G_windowFrame
  | G_doNotTrack
  | G_plugins
  | G_mediaDevices
  | G_webglVendor
  | G_userActivation
  | G_connection
  | G_canvasNoise
  | G_webglNoise
  | G_audioContextNoise
  | G_behaviorRandomization
  | G_speechSynthesis
  | G_getGamepads
  | G_getBattery
  | G_clipboard

definition catalog_basic :: "(patch_group \<times> string list) list" where
  "catalog_basic =
    [(G_webdriver, lines_webdriver),
     (G_navigator, lines_languages_first),
     (G_navigator, lines_language),
     (G_navigator, lines_languages_second),
     (G_navigatorPlatform, lines_platform),
     (G_navigatorHardwareConcurrency, lines_hardwareConcurrency),
     (G_navigatorDeviceMemory, lines_deviceMemory),
     (G_screen, lines_screen_width),
     (G_screen, lines_screen_height),
     (G_screen, lines_screen_availWidth),
     (G_screen, lines_screen_availHeight),
     (G_screen, lines_devicePixelRatio),
     (G_screen, lines_screen_colorDepth),
     (G_touchSupport, lines_maxTouchPoints),
     (G_touchSupport, lines_touchSupport),
     (G_chromeRuntime, lines_chrome),
     (G_permissions, lines_permissions),
     (G_windowFrame, lines_frameElement),
     (G_windowFrame, lines_frames),
     (G_doNotTrack, lines_doNotTrack),
     (G_plugins, lines_plugins),
     (G_plugins, lines_mimeTypes),
     (G_mediaDevices, lines_mediaDevices),
     (G_webglVendor, lines_webglVendor),
     (G_userActivation, lines_userActivation),
     (G_connection, lines_connection)]"

definition catalog :: "(patch_group \<times> string list) list" where
  "catalog = catalog_basic @
    [(G_canvasNoise, lines_canvasNoise),
     (G_webglNoise, lines_webglNoise),
     (G_audioContextNoise, lines_audioContextNoise),
     (G_behaviorRandomization, lines_behaviorRandomization),
     (G_speechSynthesis, lines_speechSynthesis),
     (G_getGamepads, lines_getGamepads),
     (G_getBattery, lines_getBattery),
     (G_clipboard, lines_clipboard)]"

fun keys_of_basic :: "patch_group \<Rightarrow> ('a StealthConfig_basic_scheme \<Rightarrow> bool option) list" where
  "keys_of_basic G_webdriver = [webdriver]"
| "keys_of_basic G_navigator = [navigator]"
| "keys_of_basic G_navigatorPlatform = [navigatorPlatform]"
| "keys_of_basic G_navigatorHardwareConcurrency = [navigatorHardwareConcurrency]"
| "keys_of_basic G_navigatorDeviceMemory = [navigatorDeviceMemory]"
| "keys_of_basic G_screen = [screenWidth, screenHeight, pixelRatio, colorDepth]"
| "keys_of_basic G_touchSupport = [touchSupport]"
| "keys_of_basic G_chromeRuntime = [chromeRuntime]"
| "keys_of_basic G_permissions = [permissions]"
| "keys_of_basic G_windowFrame = [windowFrame]"
| "keys_of_basic G_doNotTrack = [doNotTrack]"
| "keys_of_basic G_plugins = [plugins]"
| "keys_of_basic G_mediaDevices = [mediaDevices]"
| "keys_of_basic _ = []"

fun keys_of :: "patch_group \<Rightarrow> (StealthConfig \<Rightarrow> bool option) list" where
  "keys_of G_canvasNoise = [canvasNoise]"
| "keys_of G_webglNoise = [webglNoise]"
| "keys_of G_audioContextNoise = [audioContextNoise]"
| "keys_of G_behaviorRandomization = [behaviorRandomization]"
| "keys_of g = keys_of_basic g"

text \<open>
  A group is enabled when it has no gating key, or when one of its keys is not explicitly
  \<open>false\<close> (it is \<open>true\<close> or absent).
\<close>

definition enabled :: "('c \<Rightarrow> bool option) list \<Rightarrow> 'c \<Rightarrow> bool" where
  "enabled ks cfg \<longleftrightarrow> ks = [] \<or> (\<exists>k\<in>set ks. k cfg \<noteq> Some False)"

text \<open>The configurations with every boolean field explicitly \<open>false\<close>.\<close>

definition all_false_config_basic :: StealthConfig_basic where
  "all_false_config_basic =
    \<lparr> webdriver = Some False,
      navigator = Some False,
      navigatorLanguages = Some False,
      navigatorPlatform = Some False,
      navigatorHardwareConcurrency = Some False,
      navigatorDeviceMemory = Some False,
      screenWidth = Some False,
      screenHeight = Some False,
      pixelRatio = Some False,
      colorDepth = Some False,
      touchSupport = Some False,
      chromeRuntime = Some False,
      permissions = Some False,
      windowFrame = Some False,
      doNotTrack = Some False,
      plugins = Some False,
      mediaDevices = Some False,
      customUserAgent = None \<rparr>"

definition all_false_config :: StealthConfig where
  "all_false_config =
    \<lparr> webdriver = Some False,
      navigator = Some False,
      navigatorLanguages = Some False,
      navigatorPlatform = Some False,
      navigatorHardwareConcurrency = Some False,
      navigatorDeviceMemory = Some False,
      screenWidth = Some False,
      screenHeight = Some False,
      pixelRatio = Some False,
      colorDepth = Some False,
      touchSupport = Some False,
      chromeRuntime = Some False,
      permissions = Some False,
      windowFrame = Some False,
      doNotTrack = Some False,
      plugins = Some False,
      mediaDevices = Some False,
      customUserAgent = None,
      canvasNoise = Some False,
      webglNoise = Some False,
      audioContextNoise = Some False,
      behaviorRandomization = Some False \<rparr>"

section \<open>Lines of a text\<close>

text \<open>
  The lines of a text (split at every line break), and the executable checks the proofs
  about the catalog run on the recipes: no line of a recipe holds a line break, every
  recipe has at least three lines, and the second line of a recipe (its first line of
  code) is a line of no recipe of another group.
\<close>

fun lines_of :: "string \<Rightarrow> string list" where
  "lines_of [] = [[]]"
| "lines_of (c # cs) =
     (if c = CHR 0x0A then [] # lines_of cs
      else (case lines_of cs of [] \<Rightarrow> [[c]] | l # ls \<Rightarrow> (c # l) # ls))"

definition nl_free :: "string list \<Rightarrow> bool" where
  "nl_free ls = list_all (\<lambda>l. list_all (\<lambda>c. c \<noteq> CHR 0x0A) l) ls"

definition well_formed :: "string list \<Rightarrow> bool" where
  "well_formed ls \<longleftrightarrow> nl_free ls \<and> 3 \<le> length ls"

definition marker_unique :: "patch_group \<Rightarrow> string list \<Rightarrow> bool" where
  "marker_unique g ls = list_all (\<lambda>(g', ls'). ls ! 1 \<in> set ls' \<longrightarrow> g' = g) catalog"

definition sel :: "bool \<Rightarrow> 'a list \<Rightarrow> 'a list" where
  "sel b xs = (if b then xs else [])"

definition selected :: "(patch_group \<Rightarrow> bool) \<Rightarrow> (patch_group \<times> string list) list \<Rightarrow> string list list" where
  "selected on cat = concat (map (\<lambda>(g, ls). sel (on g) [ls]) cat)"

declare excess_bits.simps [simp del]

section \<open>Joining and splitting\<close>

lemma sublist_join_mem: "s \<in> set ss \<Longrightarrow> sublist s (join sep ss)"
proof (induction sep ss rule: join.induct)
  case (1 sep)
  then show ?case by simp
next
  case (2 sep x)
  then show ?case by simp
next
  case (3 sep x y ys)
  show ?case
  proof (cases "s = x")
    case True
    then show ?thesis by simp
  next
    case False
    with "3.prems" have "s \<in> set (y # ys)" by simp
    then have "sublist s (join sep (y # ys))" by (rule "3.IH")
    then obtain ps ss' where "join sep (y # ys) = ps @ s @ ss'"
      by (auto simp: sublist_def)
    then have "join sep (x # y # ys) = (x @ sep @ ps) @ s @ ss'" by simp
    then show ?thesis unfolding sublist_def by blast
  qed
qed

lemma lines_of_not_Nil [simp]: "lines_of s \<noteq> []"
  by (induction s) (auto split: list.splits)

lemma lines_of_append_newline:
  "lines_of (xs @ CHR 0x0A # ys) = lines_of xs @ lines_of ys"
proof (induction xs)
  case Nil
  show ?case by simp
next
  case (Cons c xs)
  obtain l ls where "lines_of xs = l # ls"
    using lines_of_not_Nil [of xs] by (cases "lines_of xs") auto
  with Cons show ?case by simp
qed

lemma lines_of_line: "list_all (\<lambda>c. c \<noteq> CHR 0x0A) l \<Longrightarrow> lines_of l = [l]"
  by (induction l) auto

lemma lines_of_text_lines:
  "nl_free ls \<Longrightarrow> ls \<noteq> [] \<Longrightarrow> lines_of (text_lines ls) = ls"
  unfolding text_lines_def newline_def
proof (induction "[CHR 0x0A]" ls rule: join.induct)
  case 1
  then show ?case by simp
next
  case (2 x)
  then show ?case by (simp add: nl_free_def lines_of_line)
next
  case (3 x y ys)
  from "3.prems" have "nl_free (y # ys)" and x: "list_all (\<lambda>c. c \<noteq> CHR 0x0A) x"
    by (simp_all add: nl_free_def)
  then have "lines_of (join [CHR 0x0A] (y # ys)) = y # ys"
    using "3.hyps" by simp
  then show ?case
    using x by (simp add: lines_of_append_newline lines_of_line)
qed

lemma lines_of_join_texts:
  "list_all well_formed lss \<Longrightarrow> lss \<noteq> [] \<Longrightarrow>
     lines_of (join newline (map text_lines lss)) = concat lss"
proof (induction lss)
  case Nil
  then show ?case by simp
next
  case (Cons ls lss)
  from Cons.prems have ls: "lines_of (text_lines ls) = ls"
    by (auto simp: well_formed_def intro: lines_of_text_lines)
  show ?case
  proof (cases lss)
    case Nil
    with ls show ?thesis by simp
  next
    case (Cons ls' lss')
    with Cons.IH Cons.prems have "lines_of (join newline (map text_lines lss)) = concat lss"
      by simp
    with ls Cons show ?thesis
      by (simp add: newline_def lines_of_append_newline)
  qed
qed

text \<open>A text that holds a recipe has the second line of the recipe among its lines.\<close>

lemma second_line_of_sublist:
  assumes wf: "well_formed ls" and sub: "sublist (text_lines ls) t"
  shows "ls ! 1 \<in> set (lines_of t)"
proof -
  from wf obtain l0 m l2 rest where ls: "ls = l0 # m # l2 # rest"
    by (cases ls; cases "tl ls"; cases "tl (tl ls)") (auto simp: well_formed_def)
  from wf ls have m: "list_all (\<lambda>c. c \<noteq> CHR 0x0A) m"
    by (simp add: well_formed_def nl_free_def)
  from sub obtain ps ss where "t = ps @ text_lines ls @ ss"
    by (auto simp: sublist_def)
  then have "t = (ps @ l0) @ CHR 0x0A # (m @ CHR 0x0A # (join newline (l2 # rest) @ ss))"
    by (simp add: ls text_lines_def newline_def)
  then have "lines_of t = lines_of (ps @ l0) @ [m] @ lines_of (join newline (l2 # rest) @ ss)"
    using m by (simp only: lines_of_append_newline lines_of_line)
  then show ?thesis by (simp add: ls)
qed

section \<open>Selection from the catalog\<close>

lemma sel_simps [simp]: "sel True xs = xs" "sel False xs = []" "sel b [] = []"
  by (simp_all add: sel_def)

lemma set_selected:
  "ls \<in> set (selected on cat) \<longleftrightarrow> (\<exists>g. (g, ls) \<in> set cat \<and> on g)"
  by (induction cat) (auto simp: selected_def sel_def)

lemma selected_well_formed:
  "list_all (\<lambda>(g, ls). well_formed ls) cat \<Longrightarrow> list_all well_formed (selected on cat)"
  by (induction cat) (auto simp: selected_def sel_def)

text \<open>
  The payload built from a selection of a catalog holds a recipe of the catalog exactly
  when the group of the recipe is selected.
\<close>

lemma recipe_in_payload_iff:
  assumes wf: "list_all (\<lambda>(g, ls). well_formed ls) cat"
    and mk: "list_all (\<lambda>(g, ls). list_all (\<lambda>(g', ls'). ls ! 1 \<in> set ls' \<longrightarrow> g' = g) cat) cat"
    and mem: "(g, ls) \<in> set cat"
  shows "sublist (text_lines ls) (join newline (map text_lines (selected on cat))) \<longleftrightarrow> on g"
proof
  assume "on g"
  with mem have "ls \<in> set (selected on cat)" by (auto simp: set_selected)
  then have "text_lines ls \<in> set (map text_lines (selected on cat))" by simp
  then show "sublist (text_lines ls) (join newline (map text_lines (selected on cat)))"
    by (rule sublist_join_mem)
next
  assume sub: "sublist (text_lines ls) (join newline (map text_lines (selected on cat)))"
  from wf mem have wfl: "well_formed ls" by (auto simp: list_all_iff)
  have ne: "selected on cat \<noteq> []"
  proof
    assume "selected on cat = []"
    with sub have "text_lines ls = []" by simp
    moreover from wfl have "lines_of (text_lines ls) = ls"
      by (auto simp: well_formed_def intro: lines_of_text_lines)
    ultimately have "ls = [[]]" by simp
    with wfl show False by (simp add: well_formed_def)
  qed
  from wfl sub have "ls ! 1 \<in> set (lines_of (join newline (map text_lines (selected on cat))))"
    by (rule second_line_of_sublist)
  also have "lines_of (join newline (map text_lines (selected on cat))) = concat (selected on cat)"
    using wf ne by (intro lines_of_join_texts selected_well_formed)
  finally obtain ls' where "ls' \<in> set (selected on cat)" and in': "ls ! 1 \<in> set ls'"
    by auto
  then obtain g' where g': "(g', ls') \<in> set cat" and on': "on g'"
    by (auto simp: set_selected)
  from mk mem g' in' have "g' = g"
    by (auto simp: list_all_iff)
  with on' show "on g" by simp
qed


section \<open>Checks on the recipes\<close>

lemmas lines_defs = lines_webdriver_def lines_languages_first_def lines_language_def
  lines_languages_second_def lines_platform_def lines_hardwareConcurrency_def
  lines_deviceMemory_def lines_screen_width_def lines_screen_height_def
  lines_screen_availWidth_def lines_screen_availHeight_def lines_devicePixelRatio_def
  lines_screen_colorDepth_def lines_maxTouchPoints_def lines_touchSupport_def
  lines_chrome_def lines_permissions_def lines_frameElement_def lines_frames_def
  lines_doNotTrack_def lines_plugins_def lines_mimeTypes_def lines_mediaDevices_def
  lines_webglVendor_def lines_userActivation_def lines_connection_def lines_canvasNoise_def
  lines_webglNoise_def lines_audioContextNoise_def lines_behaviorRandomization_def
  lines_speechSynthesis_def lines_getGamepads_def lines_getBattery_def lines_clipboard_def

lemmas script_defs = script_webdriver_def script_languages_first_def script_language_def
  script_languages_second_def script_platform_def script_hardwareConcurrency_def
  script_deviceMemory_def script_screen_width_def script_screen_height_def
  script_screen_availWidth_def script_screen_availHeight_def script_devicePixelRatio_def
  script_screen_colorDepth_def script_maxTouchPoints_def script_touchSupport_def
  script_chrome_def script_permissions_def script_frameElement_def script_frames_def
  script_doNotTrack_def script_plugins_def script_mimeTypes_def script_mediaDevices_def
  script_webglVendor_def script_userActivation_def script_connection_def
  script_canvasNoise_def script_webglNoise_def script_audioContextNoise_def
  script_behaviorRandomization_def script_speechSynthesis_def script_getGamepads_def
  script_getBattery_def script_clipboard_def

lemma catalog_nl_free: "list_all (\<lambda>(g, ls). nl_free ls) catalog"
  unfolding catalog_def catalog_basic_def nl_free_def lines_defs
  by (simp only: append.simps list.pred_inject prod.case char.inject simp_thms)

lemma catalog_three_lines: "list_all (\<lambda>(g, ls). 3 \<le> length ls) catalog"
  unfolding catalog_def catalog_basic_def lines_defs
  by (simp only: append.simps list.pred_inject prod.case list.size(4) numeral_3_eq_3
      Suc_le_mono le0 add_Suc_right add_0_right One_nat_def simp_thms)

lemma catalog_well_formed: "list_all (\<lambda>(g, ls). well_formed ls) catalog"
  using catalog_nl_free catalog_three_lines
  by (simp add: list_all_iff well_formed_def split_beta)

text \<open>
  The second line of each recipe, compared with every line of every recipe: it is a line
  of recipes of its own group only.
\<close>

lemma marker_webdriver: "marker_unique G_webdriver lines_webdriver"
  unfolding marker_unique_def catalog_def catalog_basic_def lines_defs
  by (simp only: append.simps nth_Cons_Suc nth_Cons_0 One_nat_def list.pred_inject prod.case
      set_simps insert_iff empty_iff list.inject list.distinct char.inject simp_thms)

lemma marker_languages_first: "marker_unique G_navigator lines_languages_first"
  unfolding marker_unique_def catalog_def catalog_basic_def lines_defs
  by (simp only: append.simps nth_Cons_Suc nth_Cons_0 One_nat_def list.pred_inject prod.case
      set_simps insert_iff empty_iff list.inject list.distinct char.inject simp_thms)

lemma marker_language: "marker_unique G_navigator lines_language"
  unfolding marker_unique_def catalog_def catalog_basic_def lines_defs
  by (simp only: append.simps nth_Cons_Suc nth_Cons_0 One_nat_def list.pred_inject prod.case
      set_simps insert_iff empty_iff list.inject list.distinct char.inject simp_thms)

lemma marker_languages_second: "marker_unique G_navigator lines_languages_second"
  unfolding marker_unique_def catalog_def catalog_basic_def lines_defs
  by (simp only: append.simps nth_Cons_Suc nth_Cons_0 One_nat_def list.pred_inject prod.case
      set_simps insert_iff empty_iff list.inject list.distinct char.inject simp_thms)

lemma marker_platform: "marker_unique G_navigatorPlatform lines_platform"
  unfolding marker_unique_def catalog_def catalog_basic_def lines_defs
  by (simp only: append.simps nth_Cons_Suc nth_Cons_0 One_nat_def list.pred_inject prod.case
      set_simps insert_iff empty_iff list.inject list.distinct char.inject simp_thms)

lemma marker_hardwareConcurrency: "marker_unique G_navigatorHardwareConcurrency lines_hardwareConcurrency"
  unfolding marker_unique_def catalog_def catalog_basic_def lines_defs
  by (simp only: append.simps nth_Cons_Suc nth_Cons_0 One_nat_def list.pred_inject prod.case
      set_simps insert_iff empty_iff list.inject list.distinct char.inject simp_thms)

lemma marker_deviceMemory: "marker_unique G_navigatorDeviceMemory lines_deviceMemory"
  unfolding marker_unique_def catalog_def catalog_basic_def lines_defs
  by (simp only: append.simps nth_Cons_Suc nth_Cons_0 One_nat_def list.pred_inject prod.case
      set_simps insert_iff empty_iff list.inject list.distinct char.inject simp_thms)

lemma marker_screen_width: "marker_unique G_screen lines_screen_width"
  unfolding marker_unique_def catalog_def catalog_basic_def lines_defs
  by (simp only: append.simps nth_Cons_Suc nth_Cons_0 One_nat_def list.pred_inject prod.case
      set_simps insert_iff empty_iff list.inject list.distinct char.inject simp_thms)

lemma marker_screen_height: "marker_unique G_screen lines_screen_height"
  unfolding marker_unique_def catalog_def catalog_basic_def lines_defs
  by (simp only: append.simps nth_Cons_Suc nth_Cons_0 One_nat_def list.pred_inject prod.case
      set_simps insert_iff empty_iff list.inject list.distinct char.inject simp_thms)

lemma marker_screen_availWidth: "marker_unique G_screen lines_screen_availWidth"
  unfolding marker_unique_def catalog_def catalog_basic_def lines_defs
  by (simp only: append.simps nth_Cons_Suc nth_Cons_0 One_nat_def list.pred_inject prod.case
      set_simps insert_iff empty_iff list.inject list.distinct char.inject simp_thms)

lemma marker_screen_availHeight: "marker_unique G_screen lines_screen_availHeight"
  unfolding marker_unique_def catalog_def catalog_basic_def lines_defs
  by (simp only: append.simps nth_Cons_Suc nth_Cons_0 One_nat_def list.pred_inject prod.case
      set_simps insert_iff empty_iff list.inject list.distinct char.inject simp_thms)

lemma marker_devicePixelRatio: "marker_unique G_screen lines_devicePixelRatio"
  unfolding marker_unique_def catalog_def catalog_basic_def lines_defs
  by (simp only: append.simps nth_Cons_Suc nth_Cons_0 One_nat_def list.pred_inject prod.case
      set_simps insert_iff empty_iff list.inject list.distinct char.inject simp_thms)

lemma marker_screen_colorDepth: "marker_unique G_screen lines_screen_colorDepth"
  unfolding marker_unique_def catalog_def catalog_basic_def lines_defs
  by (simp only: append.simps nth_Cons_Suc nth_Cons_0 One_nat_def list.pred_inject prod.case
      set_simps insert_iff empty_iff list.inject list.distinct char.inject simp_thms)

lemma marker_maxTouchPoints: "marker_unique G_touchSupport lines_maxTouchPoints"
  unfolding marker_unique_def catalog_def catalog_basic_def lines_defs
  by (simp only: append.simps nth_Cons_Suc nth_Cons_0 One_nat_def list.pred_inject prod.case
      set_simps insert_iff empty_iff list.inject list.distinct char.inject simp_thms)

lemma marker_touchSupport: "marker_unique G_touchSupport lines_touchSupport"
  unfolding marker_unique_def catalog_def catalog_basic_def lines_defs
  by (simp only: append.simps nth_Cons_Suc nth_Cons_0 One_nat_def list.pred_inject prod.case
      set_simps insert_iff empty_iff list.inject list.distinct char.inject simp_thms)

lemma marker_chrome: "marker_unique G_chromeRuntime lines_chrome"
  unfolding marker_unique_def catalog_def catalog_basic_def lines_defs
  by (simp only: append.simps nth_Cons_Suc nth_Cons_0 One_nat_def list.pred_inject prod.case
      set_simps insert_iff empty_iff list.inject list.distinct char.inject simp_thms)

lemma marker_permissions: "marker_unique G_permissions lines_permissions"
  unfolding marker_unique_def catalog_def catalog_basic_def lines_defs
  by (simp only: append.simps nth_Cons_Suc nth_Cons_0 One_nat_def list.pred_inject prod.case
      set_simps insert_iff empty_iff list.inject list.distinct char.inject simp_thms)

lemma marker_frameElement: "marker_unique G_windowFrame lines_frameElement"
  unfolding marker_unique_def catalog_def catalog_basic_def lines_defs
  by (simp only: append.simps nth_Cons_Suc nth_Cons_0 One_nat_def list.pred_inject prod.case
      set_simps insert_iff empty_iff list.inject list.distinct char.inject simp_thms)

lemma marker_frames: "marker_unique G_windowFrame lines_frames"
  unfolding marker_unique_def catalog_def catalog_basic_def lines_defs
  by (simp only: append.simps nth_Cons_Suc nth_Cons_0 One_nat_def list.pred_inject prod.case
      set_simps insert_iff empty_iff list.inject list.distinct char.inject simp_thms)

lemma marker_doNotTrack: "marker_unique G_doNotTrack lines_doNotTrack"
  unfolding marker_unique_def catalog_def catalog_basic_def lines_defs
  by (simp only: append.simps nth_Cons_Suc nth_Cons_0 One_nat_def list.pred_inject prod.case
      set_simps insert_iff empty_iff list.inject list.distinct char.inject simp_thms)

lemma marker_plugins: "marker_unique G_plugins lines_plugins"
  unfolding marker_unique_def catalog_def catalog_basic_def lines_defs
  by (simp only: append.simps nth_Cons_Suc nth_Cons_0 One_nat_def list.pred_inject prod.case
      set_simps insert_iff empty_iff list.inject list.distinct char.inject simp_thms)

lemma marker_mimeTypes: "marker_unique G_plugins lines_mimeTypes"
  unfolding marker_unique_def catalog_def catalog_basic_def lines_defs
  by (simp only: append.simps nth_Cons_Suc nth_Cons_0 One_nat_def list.pred_inject prod.case
      set_simps insert_iff empty_iff list.inject list.distinct char.inject simp_thms)

lemma marker_mediaDevices: "marker_unique G_mediaDevices lines_mediaDevices"
  unfolding marker_unique_def catalog_def catalog_basic_def lines_defs
  by (simp only: append.simps nth_Cons_Suc nth_Cons_0 One_nat_def list.pred_inject prod.case
      set_simps insert_iff empty_iff list.inject list.distinct char.inject simp_thms)

lemma marker_webglVendor: "marker_unique G_webglVendor lines_webglVendor"
  unfolding marker_unique_def catalog_def catalog_basic_def lines_defs
  by (simp only: append.simps nth_Cons_Suc nth_Cons_0 One_nat_def list.pred_inject prod.case
      set_simps insert_iff empty_iff list.inject list.distinct char.inject simp_thms)

lemma marker_userActivation: "marker_unique G_userActivation lines_userActivation"
  unfolding marker_unique_def catalog_def catalog_basic_def lines_defs
  by (simp only: append.simps nth_Cons_Suc nth_Cons_0 One_nat_def list.pred_inject prod.case
      set_simps insert_iff empty_iff list.inject list.distinct char.inject simp_thms)

lemma marker_connection: "marker_unique G_connection lines_connection"
  unfolding marker_unique_def catalog_def catalog_basic_def lines_defs
  by (simp only: append.simps nth_Cons_Suc nth_Cons_0 One_nat_def list.pred_inject prod.case
      set_simps insert_iff empty_iff list.inject list.distinct char.inject simp_thms)

lemma marker_canvasNoise: "marker_unique G_canvasNoise lines_canvasNoise"
  unfolding marker_unique_def catalog_def catalog_basic_def lines_defs
  by (simp only: append.simps nth_Cons_Suc nth_Cons_0 One_nat_def list.pred_inject prod.case
      set_simps insert_iff empty_iff list.inject list.distinct char.inject simp_thms)

lemma marker_webglNoise: "marker_unique G_webglNoise lines_webglNoise"
  unfolding marker_unique_def catalog_def catalog_basic_def lines_defs
  by (simp only: append.simps nth_Cons_Suc nth_Cons_0 One_nat_def list.pred_inject prod.case
      set_simps insert_iff empty_iff list.inject list.distinct char.inject simp_thms)

lemma marker_audioContextNoise: "marker_unique G_audioContextNoise lines_audioContextNoise"
  unfolding marker_unique_def catalog_def catalog_basic_def lines_defs
  by (simp only: append.simps nth_Cons_Suc nth_Cons_0 One_nat_def list.pred_inject prod.case
      set_simps insert_iff empty_iff list.inject list.distinct char.inject simp_thms)

lemma marker_behaviorRandomization: "marker_unique G_behaviorRandomization lines_behaviorRandomization"
  unfolding marker_unique_def catalog_def catalog_basic_def lines_defs
  by (simp only: append.simps nth_Cons_Suc nth_Cons_0 One_nat_def list.pred_inject prod.case
      set_simps insert_iff empty_iff list.inject list.distinct char.inject simp_thms)

lemma marker_speechSynthesis: "marker_unique G_speechSynthesis lines_speechSynthesis"
  unfolding marker_unique_def catalog_def catalog_basic_def lines_defs
  by (simp only: append.simps nth_Cons_Suc nth_Cons_0 One_nat_def list.pred_inject prod.case
      set_simps insert_iff empty_iff list.inject list.distinct char.inject simp_thms)

lemma marker_getGamepads: "marker_unique G_getGamepads lines_getGamepads"
  unfolding marker_unique_def catalog_def catalog_basic_def lines_defs
  by (simp only: append.simps nth_Cons_Suc nth_Cons_0 One_nat_def list.pred_inject prod.case
      set_simps insert_iff empty_iff list.inject list.distinct char.inject simp_thms)

lemma marker_getBattery: "marker_unique G_getBattery lines_getBattery"
  unfolding marker_unique_def catalog_def catalog_basic_def lines_defs
  by (simp only: append.simps nth_Cons_Suc nth_Cons_0 One_nat_def list.pred_inject prod.case
      set_simps insert_iff empty_iff list.inject list.distinct char.inject simp_thms)

lemma marker_clipboard: "marker_unique G_clipboard lines_clipboard"
  unfolding marker_unique_def catalog_def catalog_basic_def lines_defs
  by (simp only: append.simps nth_Cons_Suc nth_Cons_0 One_nat_def list.pred_inject prod.case
      set_simps insert_iff empty_iff list.inject list.distinct char.inject simp_thms)

lemmas marker_lemmas = marker_webdriver marker_languages_first marker_language
  marker_languages_second marker_platform marker_hardwareConcurrency marker_deviceMemory
  marker_screen_width marker_screen_height marker_screen_availWidth
  marker_screen_availHeight marker_devicePixelRatio marker_screen_colorDepth
  marker_maxTouchPoints marker_touchSupport marker_chrome marker_permissions
  marker_frameElement marker_frames marker_doNotTrack marker_plugins marker_mimeTypes
  marker_mediaDevices marker_webglVendor marker_userActivation marker_connection
  marker_canvasNoise marker_webglNoise marker_audioContextNoise marker_behaviorRandomization
  marker_speechSynthesis marker_getGamepads marker_getBattery marker_clipboard

lemma catalog_markers: "list_all (\<lambda>(g, ls). marker_unique g ls) catalog"
  by (simp add: catalog_def catalog_basic_def marker_lemmas)

section \<open>What the statements do\<close>

lemma block_Nil [simp]: "block [] st = st"
  by (simp add: block_def)

lemma block_Cons [simp]: "block (stmt # stmts) st = block stmts (stmt st)"
  by (simp add: block_def)

lemma push_simps [simp]:
  "scripts (push s st) = scripts st @ [s]"
  "config (push s st) = config st"
  "rng (push s st) = rng st"
  by (simp_all add: push_def)

lemma pushes_Nil: "pushes [] st = st"
  by (simp add: pushes_def)

lemma pushes_Cons: "pushes (s # ss) st = pushes ss (push s st)"
  by (simp add: pushes_def)

lemma pushes_simps [simp]:
  "scripts (pushes ss st) = scripts st @ ss"
  "config (pushes ss st) = config st"
  "rng (pushes ss st) = rng st"
  by (induction ss arbitrary: st; simp add: pushes_Nil pushes_Cons)+

lemma if_then_pushes [simp]:
  "scripts (if_then cond (pushes ss) st) = scripts st @ sel (cond (config st)) ss"
  "config (if_then cond (pushes ss) st) = config st"
  "rng (if_then cond (pushes ss) st) = rng st"
  by (simp_all add: if_then_def sel_def)

lemma sel_Cons2: "sel b (x # y # ys) = sel b [x] @ sel b (y # ys)"
  by (simp add: sel_def)

lemma map_sel: "map f (sel b xs) = sel b (map f xs)"
  by (simp add: sel_def)

text \<open>The shared statements keep the configuration and the randomization source.\<close>

lemma basic_statements_frame:
  "config (basic_statements st) = config st" "rng (basic_statements st) = rng st"
  by (simp_all add: basic_statements_def)

lemma enhanced_statements_frame:
  "config (enhanced_statements st) = config st" "rng (enhanced_statements st) = rng st"
  by (simp_all add: enhanced_statements_def)

text \<open>The recipes they push are the recipes of the enabled groups of the catalog, in order.\<close>

lemma basic_statements_scripts:
  "scripts (basic_statements st) =
     scripts st @ map text_lines (selected (\<lambda>g. enabled (keys_of_basic g) (config st)) catalog_basic)"
  by (simp add: basic_statements_def selected_def catalog_basic_def enabled_def script_defs
      sel_Cons2 map_sel)

lemma enhanced_statements_scripts:
  "scripts (enhanced_statements (basic_statements st)) =
     scripts st @ map text_lines (selected (\<lambda>g. enabled (keys_of g) (config st)) catalog)"
  by (simp add: enhanced_statements_def basic_statements_scripts basic_statements_frame
      selected_def catalog_def catalog_basic_def enabled_def script_defs sel_Cons2 map_sel)

lemma exec_scripts:
  "scripts (generateStealthScript_exec cfg rs) =
     map text_lines (selected (\<lambda>g. enabled (keys_of g) cfg) catalog)"
  by (simp add: generateStealthScript_exec_def enhanced_statements_scripts)

lemma exec_basic_scripts:
  "scripts (generateStealthScript_basic_exec cfg rs) =
     map text_lines (selected (\<lambda>g. enabled (keys_of_basic g) cfg) catalog_basic)"
  by (simp add: generateStealthScript_basic_exec_def basic_statements_scripts)

lemma exec_frame:
  "config (generateStealthScript_exec cfg rs) = cfg" "rng (generateStealthScript_exec cfg rs) = rs"
  by (simp_all add: generateStealthScript_exec_def enhanced_statements_frame basic_statements_frame)

lemma exec_basic_frame:
  "config (generateStealthScript_basic_exec cfg rs) = cfg"
  "rng (generateStealthScript_basic_exec cfg rs) = rs"
  by (simp_all add: generateStealthScript_basic_exec_def basic_statements_frame)

lemma payload_eq:
  "generateStealthScript cfg rs =
     (join newline (map text_lines (selected (\<lambda>g. enabled (keys_of g) cfg) catalog)), rs)"
  by (simp add: generateStealthScript_def Let_def exec_scripts exec_frame)

lemma payload_basic_eq:
  "generateStealthScript_basic cfg rs =
     (join newline (map text_lines (selected (\<lambda>g. enabled (keys_of_basic g) cfg) catalog_basic)), rs)"
  by (simp add: generateStealthScript_basic_def Let_def exec_basic_scripts exec_basic_frame)

section \<open>Recipes in the payload\<close>

lemma catalog_basic_subset: "set catalog_basic \<subseteq> set catalog"
  by (auto simp: catalog_def)

lemma catalog_marker_table:
  "list_all (\<lambda>(g, ls). list_all (\<lambda>(g', ls'). ls ! 1 \<in> set ls' \<longrightarrow> g' = g) catalog) catalog"
  using catalog_markers by (simp only: marker_unique_def)

lemma catalog_basic_well_formed: "list_all (\<lambda>(g, ls). well_formed ls) catalog_basic"
  using catalog_well_formed catalog_basic_subset by (auto simp: list_all_iff)

lemma catalog_basic_marker_table:
  "list_all (\<lambda>(g, ls). list_all (\<lambda>(g', ls'). ls ! 1 \<in> set ls' \<longrightarrow> g' = g) catalog_basic)
     catalog_basic"
  using catalog_marker_table catalog_basic_subset
  unfolding list_all_iff by blast

lemma payload_holds_recipe:
  assumes "(g, ls) \<in> set catalog"
  shows "sublist (text_lines ls) (fst (generateStealthScript cfg rs)) \<longleftrightarrow> enabled (keys_of g) cfg"
  unfolding payload_eq fst_conv
  using catalog_well_formed catalog_marker_table assms by (rule recipe_in_payload_iff)

lemma payload_basic_holds_recipe:
  assumes "(g, ls) \<in> set catalog_basic"
  shows "sublist (text_lines ls) (fst (generateStealthScript_basic cfg rs))
     \<longleftrightarrow> enabled (keys_of_basic g) cfg"
  unfolding payload_basic_eq fst_conv
  using catalog_basic_well_formed catalog_basic_marker_table assms by (rule recipe_in_payload_iff)

lemma enabled_customUserAgent:
  "enabled (keys_of g) (cfg\<lparr>customUserAgent := v\<rparr>) = enabled (keys_of g) cfg"
  by (cases g) (simp_all add: enabled_def)

lemma enabled_basic_customUserAgent:
  "enabled (keys_of_basic g) (cfg\<lparr>customUserAgent := v\<rparr>) = enabled (keys_of_basic g) cfg"
  by (cases g) (simp_all add: enabled_def)

section \<open>Launch arguments\<close>

text \<open>
  The index computed from a value of \<open>Math.random\<close> and a pool of three elements, with
  the rounding of the product: it is 0, 1 or 2.
\<close>

lemma excess_bits_small: "m < 2 ^ 53 \<Longrightarrow> excess_bits m = 0"
  by (simp add: excess_bits.simps)

lemma excess_bits_large: "\<not> m < 2 ^ 53 \<Longrightarrow> excess_bits m = Suc (excess_bits (m div 2))"
  by (subst excess_bits.simps) simp

lemma below_one:
  assumes "double_value x < 1"
  shows "significand x = 0 \<or> (exponent x < 0 \<and> significand x < 2 ^ nat (- exponent x))"
proof (cases "0 \<le> exponent x")
  case True
  have "significand x = 0"
  proof (rule ccontr)
    assume "significand x \<noteq> 0"
    then have "1 \<le> real (significand x)" by simp
    moreover have "(1::real) \<le> 2 ^ nat (exponent x)" by simp
    ultimately have "1 * 1 \<le> real (significand x) * 2 ^ nat (exponent x)"
      by (intro mult_mono) simp_all
    with assms True show False by (simp add: double_value_def)
  qed
  then show ?thesis ..
next
  case False
  with assms have "real (significand x) / 2 ^ nat (- exponent x) < 1"
    by (simp add: double_value_def)
  then have "real (significand x) < 2 ^ nat (- exponent x)" by simp
  then have "significand x < 2 ^ nat (- exponent x)"
    by (metis of_nat_less_iff of_nat_numeral of_nat_power)
  with False show ?thesis by simp
qed

lemma round_half_even_0: "round_half_even m 0 = m"
  by (simp add: round_half_even_def)

lemma round_half_even_1: "round_half_even m 1 \<le> (m + 1) div 2"
  by (simp add: round_half_even_def Let_def) presburger

lemma round_half_even_2: "round_half_even m 2 \<le> (m + 2) div 4"
  by (simp add: round_half_even_def Let_def) presburger

lemma excess_bits_cases:
  assumes "m < 3 * 2 ^ 53"
  shows "(m < 2 ^ 53 \<and> excess_bits m = 0)
       \<or> (2 ^ 53 \<le> m \<and> m < 2 ^ 54 \<and> excess_bits m = 1)
       \<or> (2 ^ 54 \<le> m \<and> excess_bits m = 2)"
proof -
  consider "m < 2 ^ 53" | "2 ^ 53 \<le> m" "m < 2 ^ 54" | "2 ^ 54 \<le> m" by linarith
  then show ?thesis
  proof cases
    case 1
    then show ?thesis by (simp add: excess_bits_small)
  next
    case 2
    then have "m div 2 < 2 ^ 53" by simp
    with 2 show ?thesis by (simp add: excess_bits_small excess_bits_large)
  next
    case 3
    with assms have "\<not> m div 2 < 2 ^ 53" "m div 2 div 2 < 2 ^ 53" by simp_all
    with 3 show ?thesis by (simp add: excess_bits_small excess_bits_large)
  qed
qed

lemma floor_times_three:
  assumes "significand x < 2 ^ 53" and "double_value x < 1"
  shows "Math_floor (double_times_nat x 3) = 0 \<or> Math_floor (double_times_nat x 3) = 1
       \<or> Math_floor (double_times_nat x 3) = 2"
proof -
  obtain m e where x: "x = Double m e" by (cases x)
  from assms(1) x have m53: "m < 2 ^ 53" by simp
  from below_one [OF assms(2)] x
  consider "m = 0" | "e < 0" "m < 2 ^ nat (- e)" by auto
  then have "Math_floor (double_times_nat x 3) < 3"
  proof cases
    case 1
    then show ?thesis
      by (simp add: x Math_floor_def double_times_nat_def excess_bits_small round_half_even_0)
  next
    case 2
    define k where "k = nat (- e)"
    define M where "M = m * 3"
    from 2 have k: "0 < k" and mk: "m < 2 ^ k" and e: "e = - int k" by (simp_all add: k_def)
    from m53 have "M < 3 * 2 ^ 53" by (simp add: M_def)
    from excess_bits_cases [OF this]
    consider "M < 2 ^ 53" "excess_bits M = 0"
      | "2 ^ 53 \<le> M" "excess_bits M = 1"
      | "2 ^ 54 \<le> M" "excess_bits M = 2" by (elim disjE conjE)
    then show ?thesis
    proof cases
      case 1
      from mk have "M < 3 * 2 ^ k" by (simp add: M_def)
      then have "M div 2 ^ k < 3" by (simp add: div_less_iff_less_mult)
      with 1 k show ?thesis
        by (simp add: x e Math_floor_def double_times_nat_def round_half_even_0 M_def [symmetric])
    next
      case 2
      have k2: "2 \<le> k"
      proof (rule ccontr)
        assume "\<not> 2 \<le> k"
        with k have "k = 1" by simp
        with mk have "M < 6" by (simp add: M_def)
        with 2 show False by simp
      qed
      then obtain j where j: "k = Suc j" "0 < j" by (cases k) auto
      from mk j have "M + 1 < 6 * 2 ^ j" by (simp add: M_def)
      then have "(M + 1) div 2 < 3 * 2 ^ j" by simp
      with round_half_even_1 [of M] have "round_half_even M 1 < 3 * 2 ^ j" by simp
      then have "round_half_even M 1 div 2 ^ j < 3" by (simp add: div_less_iff_less_mult)
      with 2 j show ?thesis
        by (simp add: x e Math_floor_def double_times_nat_def M_def [symmetric])
    next
      case 3
      have k3: "3 \<le> k"
      proof (rule ccontr)
        assume "\<not> 3 \<le> k"
        with k have "k = 1 \<or> k = 2" by auto
        with mk have "M < 12" by (auto simp: M_def)
        with 3 show False by simp
      qed
      then obtain j where j: "k = Suc (Suc j)" "0 < j"
        by (cases k; cases "k - 1") auto
      from mk j have "M + 2 < 12 * 2 ^ j" by (simp add: M_def)
      then have "(M + 2) div 4 < 3 * 2 ^ j" by simp
      with round_half_even_2 [of M] have "round_half_even M 2 < 3 * 2 ^ j" by simp
      then have "round_half_even M 2 div 2 ^ j < 3" by (simp add: div_less_iff_less_mult)
      with 3 j show ?thesis
        by (simp add: x e Math_floor_def double_times_nat_def M_def [symmetric])
    qed
  qed
  moreover have "0 \<le> Math_floor (double_times_nat x 3)"
    by (simp add: Math_floor_def)
  ultimately show ?thesis by linarith
qed

lemma random_element_chrome:
  assumes "is_double (rs 0)" "double_value (rs 0) < 1"
  shows "fst (random_element chrome_versions rs) = Some ''131.0.0.0''
       \<or> fst (random_element chrome_versions rs) = Some ''132.0.0.0''
       \<or> fst (random_element chrome_versions rs) = Some ''133.0.0.0''"
proof -
  define i where "i = Math_floor (double_times_nat (rs 0) 3)"
  have "length chrome_versions = 3" by (simp add: chrome_versions_def)
  then have element: "fst (random_element chrome_versions rs) = array_get chrome_versions i"
    by (simp add: random_element_def Math_random_def i_def)
  from assms(1) have "significand (rs 0) < 2 ^ 53" by (simp add: is_double_def)
  from floor_times_three [OF this assms(2)] have "i = 0 \<or> i = 1 \<or> i = 2"
    by (simp add: i_def)
  then show ?thesis
    unfolding element by (auto simp: array_get_def chrome_versions_def)
qed

lemma random_element_source: "snd (random_element pool rs) = (\<lambda>n. rs (Suc n))"
  by (simp add: random_element_def Math_random_def)

lemma user_agent_eq:
  "generateRealisticUserAgent rs =
     (''Mozilla/5.0 (Windows NT 10.0; Win64; x64) AppleWebKit/537.36 (KHTML, like Gecko) Chrome/''
        @ interpolate (fst (random_element chrome_versions rs)) @ '' Safari/537.36'',
      \<lambda>n. rs (Suc (Suc n)))"
  by (simp add: generateRealisticUserAgent_def generateRealisticUserAgent_exec_def
      random_element_source split_beta)

text \<open>The constant source used as an example: every draw is one half.\<close>

lemma random_element_half:
  "fst (random_element chrome_versions (\<lambda>_. Double 1 (- 1))) = Some ''132.0.0.0''"
  "fst (random_element safari_versions (\<lambda>_. Double 1 (- 1))) = Some ''616.4.1''"
  by (simp_all add: random_element_def Math_random_def double_times_nat_def Math_floor_def
      round_half_even_def excess_bits_small array_get_def chrome_versions_def
      safari_versions_def)

section \<open>Calls\<close>

text \<open>
  The view of a field as an optional boolean keeps what the guards test: \<open>v !== false\<close>.
\<close>

lemma optional_boolean_not_false: "optional_boolean v \<noteq> Some False \<longleftrightarrow> v \<noteq> JS_boolean False"
  by (cases v) (simp_all add: optional_boolean_def)



section \<open>The claims\<close>

text \<open>
  C1, as the specification states it: for every configuration and every patch group gated
  by a configuration key, the payload holds the recipe of the group if and only if the key
  is not explicitly \<open>false\<close>, separately for each of \<open>screenWidth\<close>, \<open>screenHeight\<close>,
  \<open>pixelRatio\<close> and \<open>colorDepth\<close>. The code puts the six screen recipes under one \<open>if\<close>
  whose condition is the disjunction of the four keys: with \<open>screenWidth\<close> explicitly
  \<open>false\<close> and the other three keys \<open>true\<close>, the payload still holds the recipe that
  overrides \<open>screen.width\<close>.
\<close>

theorem C1_screenWidth_false_counterexample:
  "screenWidth (defaultStealthConfig\<lparr>screenWidth := Some False\<rparr>) = Some False
   \<and> sublist script_screen_width
        (fst (generateStealthScript (defaultStealthConfig\<lparr>screenWidth := Some False\<rparr>) (\<lambda>_. 0)))"
  by (simp add: script_screen_width_def payload_holds_recipe [of G_screen] catalog_def
      catalog_basic_def enabled_def defaultStealthConfig_def)

text \<open>
  C1, amended: in both variants and for every configuration, the payload holds a recipe of
  the catalog if and only if the group of the recipe is enabled, that is, has no gating key
  or has a gating key that is not explicitly \<open>false\<close>. A group with one key (every gated group but the screen
  group) is in the payload exactly when its key is \<open>true\<close> or absent; the six recipes of
  the screen group are in the payload exactly when \<open>screenWidth\<close>, \<open>screenHeight\<close>,
  \<open>pixelRatio\<close> and \<open>colorDepth\<close> are not all explicitly \<open>false\<close>.
\<close>

theorem generateStealthScript_recipe_iff_enabled:
  "((g, ls) \<in> set catalog \<longrightarrow>
      (sublist (text_lines ls) (fst (generateStealthScript cfg rs))
        \<longleftrightarrow> enabled (keys_of g) cfg))
   \<and> ((g', ls') \<in> set catalog_basic \<longrightarrow>
      (sublist (text_lines ls') (fst (generateStealthScript_basic cfgb rs'))
        \<longleftrightarrow> enabled (keys_of_basic g') cfgb))
   \<and> (sublist script_webdriver (fst (generateStealthScript cfg rs))
        \<longleftrightarrow> webdriver cfg \<noteq> Some False)
   \<and> (sublist script_screen_width (fst (generateStealthScript cfg rs))
        \<longleftrightarrow> screenWidth cfg \<noteq> Some False \<or> screenHeight cfg \<noteq> Some False
            \<or> pixelRatio cfg \<noteq> Some False \<or> colorDepth cfg \<noteq> Some False)"
proof -
  have "(G_webdriver, lines_webdriver) \<in> set catalog" "(G_screen, lines_screen_width) \<in> set catalog"
    by (simp_all add: catalog_def catalog_basic_def)
  then have
    "sublist script_webdriver (fst (generateStealthScript cfg rs))
       \<longleftrightarrow> webdriver cfg \<noteq> Some False"
    "sublist script_screen_width (fst (generateStealthScript cfg rs))
       \<longleftrightarrow> screenWidth cfg \<noteq> Some False \<or> screenHeight cfg \<noteq> Some False
            \<or> pixelRatio cfg \<noteq> Some False \<or> colorDepth cfg \<noteq> Some False"
    by (simp_all add: script_webdriver_def script_screen_width_def payload_holds_recipe enabled_def)
  then show ?thesis
    using payload_holds_recipe [of g ls cfg rs] payload_basic_holds_recipe [of g' ls' cfgb rs']
    by blast
qed

theorem generateStealthScript_recipe_iff_enabled_witness:
  "sublist script_screen_height
     (fst (generateStealthScript (all_false_config\<lparr>pixelRatio := None\<rparr>) (\<lambda>_. 0)))
   \<and> \<not> sublist script_doNotTrack
     (fst (generateStealthScript_basic defaultStealthConfig_basic (\<lambda>_. 0)))"
  using generateStealthScript_recipe_iff_enabled
    [of G_screen lines_screen_height "all_false_config\<lparr>pixelRatio := None\<rparr>" "\<lambda>_. 0"
        G_doNotTrack lines_doNotTrack defaultStealthConfig_basic "\<lambda>_. 0"]
  by (simp add: catalog_def catalog_basic_def script_screen_height_def script_doNotTrack_def
      enabled_def all_false_config_def defaultStealthConfig_basic_def)

text \<open>
  C2, as the specification states it: for some configuration, two calls of
  generateStealthScript can return different payloads, the noise values being drawn from
  the randomization source when the payload is rendered. The code never calls
  \<open>Math.random\<close> while it builds the payload (the calls are text inside the recipes, run
  later by the page): no configuration and no two states of the source give two payloads.
\<close>

theorem C2_payload_deterministic_counterexample:
  "\<not> (\<exists>cfg rs rs'. fst (generateStealthScript cfg rs) \<noteq> fst (generateStealthScript cfg rs'))"
  by (simp add: payload_eq)

text \<open>
  C2, amended: in both variants the payload is a function of the configuration alone,
  whatever the randomization source holds, and the call leaves the source as it found it.
\<close>

theorem generateStealthScript_deterministic:
  "generateStealthScript cfg rs = (fst (generateStealthScript cfg rs'), rs)
   \<and> generateStealthScript_basic cfgb rs = (fst (generateStealthScript_basic cfgb rs'), rs)"
  by (simp add: payload_eq payload_basic_eq)

text \<open>
  C3, as the specification states it: every sequence returned by generateStealthArgs holds
  the flag \<open>--disable-blink-features=AutomationControlled\<close> and a flag that begins with
  the user-agent prefix. The generateStealthArgs of the basic variant returns a sequence
  without any flag that begins with \<open>--user-agent=\<close>.
\<close>

theorem C3_basic_args_no_user_agent_counterexample:
  "\<not> (\<exists>a\<in>set (fst (generateStealthArgs_basic (\<lambda>_. 0))). prefix ''--user-agent='' a)"
  by (simp add: generateStealthArgs_basic_def)

text \<open>
  C3, amended: when \<open>Math.random\<close> returns a double from 0 (included) to 1 (excluded), the
  sequence returned by the generateStealthArgs of stealth.ts holds the flag
  \<open>--disable-blink-features=AutomationControlled\<close> and the flag made of
  \<open>--user-agent=\<close> and the fixed template with a version of the Chrome pool; the sequence
  returned by the basic variant holds the first flag and no flag that begins with
  \<open>--user-agent=\<close>. The witness is the call in which \<open>Math.random\<close> returns
  0.3333333333333333 (6004799503160661 * 2 ^ -54): three times this number rounds to 1, and
  the version is the second of the pool.
\<close>

theorem generateStealthArgs_flags:
  assumes "is_double (rs 0)" and "double_value (rs 0) < 1"
  shows "''--disable-blink-features=AutomationControlled'' \<in> set (fst (generateStealthArgs rs))
    \<and> (\<exists>v\<in>{''131.0.0.0'', ''132.0.0.0'', ''133.0.0.0''}.
          ''--user-agent=Mozilla/5.0 (Windows NT 10.0; Win64; x64) AppleWebKit/537.36 (KHTML, like Gecko) Chrome/''
            @ v @ '' Safari/537.36'' \<in> set (fst (generateStealthArgs rs)))
    \<and> ''--disable-blink-features=AutomationControlled'' \<in> set (fst (generateStealthArgs_basic rs))
    \<and> \<not> (\<exists>a\<in>set (fst (generateStealthArgs_basic rs)). prefix ''--user-agent='' a)"
proof -
  have "''--disable-blink-features=AutomationControlled'' \<in> set (fst (generateStealthArgs rs))"
    by (simp add: generateStealthArgs_def split_beta)
  moreover have "\<exists>v\<in>{''131.0.0.0'', ''132.0.0.0'', ''133.0.0.0''}.
          ''--user-agent=Mozilla/5.0 (Windows NT 10.0; Win64; x64) AppleWebKit/537.36 (KHTML, like Gecko) Chrome/''
            @ v @ '' Safari/537.36'' \<in> set (fst (generateStealthArgs rs))"
    using assms random_element_chrome [of rs]
    by (auto simp: generateStealthArgs_def user_agent_eq interpolate_def)
  moreover have "''--disable-blink-features=AutomationControlled'' \<in> set (fst (generateStealthArgs_basic rs))"
    by (simp add: generateStealthArgs_basic_def)
  moreover have "\<not> (\<exists>a\<in>set (fst (generateStealthArgs_basic rs)). prefix ''--user-agent='' a)"
    by (simp add: generateStealthArgs_basic_def)
  ultimately show ?thesis by blast
qed

theorem generateStealthArgs_flags_witness:
  "is_double (Double 6004799503160661 (- 54))
    \<and> double_value (Double 6004799503160661 (- 54)) < 1
    \<and> ''--disable-blink-features=AutomationControlled''
        \<in> set (fst (generateStealthArgs (\<lambda>_. Double 6004799503160661 (- 54))))
    \<and> (\<exists>v\<in>{''131.0.0.0'', ''132.0.0.0'', ''133.0.0.0''}.
          ''--user-agent=Mozilla/5.0 (Windows NT 10.0; Win64; x64) AppleWebKit/537.36 (KHTML, like Gecko) Chrome/''
            @ v @ '' Safari/537.36''
          \<in> set (fst (generateStealthArgs (\<lambda>_. Double 6004799503160661 (- 54)))))
    \<and> ''--user-agent=Mozilla/5.0 (Windows NT 10.0; Win64; x64) AppleWebKit/537.36 (KHTML, like Gecko) Chrome/132.0.0.0 Safari/537.36''
        \<in> set (fst (generateStealthArgs (\<lambda>_. Double 6004799503160661 (- 54))))"
proof -
  have d: "is_double (Double 6004799503160661 (- 54))"
    "double_value (Double 6004799503160661 (- 54)) < 1"
    by (simp_all add: is_double_def double_value_def)
  have "fst (random_element chrome_versions (\<lambda>_. Double 6004799503160661 (- 54)))
      = Some ''132.0.0.0''"
    by (simp add: random_element_def Math_random_def double_times_nat_def Math_floor_def
        round_half_even_def excess_bits_small excess_bits_large array_get_def chrome_versions_def)
  then have "''--user-agent=Mozilla/5.0 (Windows NT 10.0; Win64; x64) AppleWebKit/537.36 (KHTML, like Gecko) Chrome/132.0.0.0 Safari/537.36''
        \<in> set (fst (generateStealthArgs (\<lambda>_. Double 6004799503160661 (- 54))))"
    by (simp add: generateStealthArgs_def user_agent_eq interpolate_def)
  with d generateStealthArgs_flags [of "\<lambda>_. Double 6004799503160661 (- 54)"]
  show ?thesis by simp
qed

text \<open>
  C4: the identity-string generator chooses one token from the Chrome pool and one from
  the Safari pool, each by its own draw from the randomization source, and substitutes
  both into the template of the returned string. The code chooses both and substitutes
  one. In the call in which both draws are one half, \<open>randomChrome\<close> is \<open>132.0.0.0\<close>
  and \<open>randomSafari\<close> is \<open>616.4.1\<close>; the returned string holds the first and not the
  second, its Safari part being the fixed text \<open>Safari/537.36\<close>.
\<close>

theorem generateRealisticUserAgent_drops_randomSafari:
  "randomChrome (generateRealisticUserAgent_exec (\<lambda>_. Double 1 (- 1))) = Some ''132.0.0.0''
   \<and> randomSafari (generateRealisticUserAgent_exec (\<lambda>_. Double 1 (- 1))) = Some ''616.4.1''
   \<and> fst (generateRealisticUserAgent (\<lambda>_. Double 1 (- 1)))
       = ''Mozilla/5.0 (Windows NT 10.0; Win64; x64) AppleWebKit/537.36 (KHTML, like Gecko) Chrome/132.0.0.0 Safari/537.36''
   \<and> \<not> sublist ''616.4.1'' (fst (generateRealisticUserAgent (\<lambda>_. Double 1 (- 1))))"
proof -
  have "randomChrome (generateRealisticUserAgent_exec (\<lambda>_. Double 1 (- 1))) = Some ''132.0.0.0''"
    "randomSafari (generateRealisticUserAgent_exec (\<lambda>_. Double 1 (- 1))) = Some ''616.4.1''"
    using random_element_half
    by (simp_all add: generateRealisticUserAgent_exec_def split_beta random_element_source)
  moreover have ua: "fst (generateRealisticUserAgent (\<lambda>_. Double 1 (- 1)))
       = ''Mozilla/5.0 (Windows NT 10.0; Win64; x64) AppleWebKit/537.36 (KHTML, like Gecko) Chrome/132.0.0.0 Safari/537.36''"
    using random_element_half(1) by (simp add: user_agent_eq interpolate_def)
  moreover have "\<not> sublist ''616.4.1'' (fst (generateRealisticUserAgent (\<lambda>_. Double 1 (- 1))))"
    unfolding ua by (simp add: sublist_code)
  ultimately show ?thesis by blast
qed

text \<open>
  C5, as the specification states it: for some string, setting \<open>customUserAgent\<close> to it
  changes the output of generateStealthScript. The function never reads the field: no
  configuration and no string make the payload differ from the one with the field unset.
\<close>

theorem C5_customUserAgent_ignored_counterexample:
  "\<not> (\<exists>cfg s rs. fst (generateStealthScript (cfg\<lparr>customUserAgent := Some s\<rparr>) rs)
        \<noteq> fst (generateStealthScript (cfg\<lparr>customUserAgent := None\<rparr>) rs))"
  by (simp add: payload_eq enabled_customUserAgent)

text \<open>
  C5, amended: in both variants the result of generateStealthScript is the same whatever
  \<open>customUserAgent\<close> holds, a string or nothing.
\<close>

theorem generateStealthScript_ignores_customUserAgent:
  "generateStealthScript (cfg\<lparr>customUserAgent := v\<rparr>) rs = generateStealthScript cfg rs
   \<and> generateStealthScript_basic (cfgb\<lparr>customUserAgent := v\<rparr>) rs
       = generateStealthScript_basic cfgb rs"
  by (simp add: payload_eq payload_basic_eq enabled_customUserAgent enabled_basic_customUserAgent)

text \<open>
  C6: for the configuration with every boolean field explicitly \<open>false\<close>, the payload of
  either variant holds the WebGL vendor recipe, the user-activation recipe and the
  connection-information recipe, and does not hold the recipe of the \<open>chrome\<close> object.
\<close>

theorem all_false_config_payload:
  "sublist script_webglVendor (fst (generateStealthScript all_false_config rs))
   \<and> sublist script_userActivation (fst (generateStealthScript all_false_config rs))
   \<and> sublist script_connection (fst (generateStealthScript all_false_config rs))
   \<and> \<not> sublist script_chrome (fst (generateStealthScript all_false_config rs))
   \<and> sublist script_webglVendor (fst (generateStealthScript_basic all_false_config_basic rs))
   \<and> sublist script_userActivation (fst (generateStealthScript_basic all_false_config_basic rs))
   \<and> sublist script_connection (fst (generateStealthScript_basic all_false_config_basic rs))
   \<and> \<not> sublist script_chrome (fst (generateStealthScript_basic all_false_config_basic rs))"
proof -
  have in_catalog: "(G_webglVendor, lines_webglVendor) \<in> set catalog_basic"
    "(G_userActivation, lines_userActivation) \<in> set catalog_basic"
    "(G_connection, lines_connection) \<in> set catalog_basic"
    "(G_chromeRuntime, lines_chrome) \<in> set catalog_basic"
    by (simp_all add: catalog_basic_def)
  then have in_catalog': "(G_webglVendor, lines_webglVendor) \<in> set catalog"
    "(G_userActivation, lines_userActivation) \<in> set catalog"
    "(G_connection, lines_connection) \<in> set catalog"
    "(G_chromeRuntime, lines_chrome) \<in> set catalog"
    using catalog_basic_subset by blast+
  have off: "\<not> enabled (keys_of G_chromeRuntime) all_false_config"
    "\<not> enabled (keys_of_basic G_chromeRuntime) all_false_config_basic"
    by (simp_all add: enabled_def all_false_config_def all_false_config_basic_def)
  have on: "enabled (keys_of G_webglVendor) all_false_config"
    "enabled (keys_of G_userActivation) all_false_config"
    "enabled (keys_of G_connection) all_false_config"
    "enabled (keys_of_basic G_webglVendor) all_false_config_basic"
    "enabled (keys_of_basic G_userActivation) all_false_config_basic"
    "enabled (keys_of_basic G_connection) all_false_config_basic"
    by (simp_all add: enabled_def)
  show ?thesis
    unfolding script_webglVendor_def script_userActivation_def script_connection_def
      script_chrome_def
    using on off
    by (simp add: payload_holds_recipe [OF in_catalog'(1)] payload_holds_recipe [OF in_catalog'(2)]
        payload_holds_recipe [OF in_catalog'(3)] payload_holds_recipe [OF in_catalog'(4)]
        payload_basic_holds_recipe [OF in_catalog(1)] payload_basic_holds_recipe [OF in_catalog(2)]
        payload_basic_holds_recipe [OF in_catalog(3)] payload_basic_holds_recipe [OF in_catalog(4)])
qed

text \<open>
  C7: two sequences returned by generateStealthArgs differ at most in the entry that
  carries the identity string. In stealth.ts the sequence always has 41 entries, the first
  40 are the same for every state of the randomization source and none of them begins with
  \<open>--user-agent=\<close>, and the last one begins with \<open>--user-agent=\<close>; the sequence of the
  basic variant is the same for every state of the source.
\<close>

theorem generateStealthArgs_static_but_user_agent:
  "length (fst (generateStealthArgs rs)) = 41
   \<and> take 40 (fst (generateStealthArgs rs)) = take 40 (fst (generateStealthArgs rs'))
   \<and> prefix ''--user-agent='' (fst (generateStealthArgs rs) ! 40)
   \<and> \<not> (\<exists>a\<in>set (take 40 (fst (generateStealthArgs rs))). prefix ''--user-agent='' a)
   \<and> fst (generateStealthArgs_basic rs) = fst (generateStealthArgs_basic rs')"
  by (simp add: generateStealthArgs_def generateStealthArgs_basic_def split_beta)

text \<open>
  C8: generateStealthScript does not change the configuration it is given. In both
  variants the configuration in the state in which the function returns is the one the
  function was called with.
\<close>

theorem generateStealthScript_keeps_config:
  "config (generateStealthScript_exec cfg rs) = cfg
   \<and> config (generateStealthScript_basic_exec cfgb rs) = cfgb"
  by (simp add: exec_frame exec_basic_frame)




text \<open>
  C10: every sequence returned by generateStealthArgs, in both variants, holds the flag
  \<open>--enable-automation\<close> and the flag \<open>--disable-automation\<close>.
\<close>

theorem generateStealthArgs_both_automation_flags:
  "''--enable-automation'' \<in> set (fst (generateStealthArgs rs))
   \<and> ''--disable-automation'' \<in> set (fst (generateStealthArgs rs))
   \<and> ''--enable-automation'' \<in> set (fst (generateStealthArgs_basic rs))
   \<and> ''--disable-automation'' \<in> set (fst (generateStealthArgs_basic rs))"
  by (simp add: generateStealthArgs_def generateStealthArgs_basic_def split_beta)

end

